theory Spec2Isabelle
  imports Main "HOL-Library.Sublist" "HOL-Library.Word"
begin

section \<open>Go library primitives used by the program\<close>

text \<open>
  A Go string is a sequence of bytes; it is modelled as a \<^typ>\<open>string\<close> (a list of 8-bit
  characters). The functions of this section stand for the functions of the Go standard
  library that the program calls.
\<close>

text \<open>
  \<^verbatim>\<open>strings.Index(s, substr)\<close>: the index of the first instance of \<open>substr\<close> in \<open>s\<close>,
  or \<open>-1\<close> if \<open>substr\<close> is not present in \<open>s\<close>.
\<close>

fun Index :: "string \<Rightarrow> string \<Rightarrow> int" where
  "Index [] substr = (if substr = [] then 0 else - 1)"
| "Index (c # cs) substr =
     (if prefix substr (c # cs) then 0
      else (let i = Index cs substr in if i < 0 then - 1 else i + 1))"

text \<open>
  \<^verbatim>\<open>strings.Split(s, sep)\<close>: the substrings of \<open>s\<close> between the occurrences of \<open>sep\<close>. When
  \<open>sep\<close> does not occur the result is the one-element list \<open>[s]\<close>. (For an empty \<open>sep\<close> Go
  splits after each UTF-8 sequence; the model splits after each byte. The program only
  ever passes the separator \<open>'',''\<close>.)
\<close>

function Split :: "string \<Rightarrow> string \<Rightarrow> string list" where
  "Split s sep =
     (if sep = [] then map (\<lambda>c. [c]) s
      else (let i = Index s sep in
            if i < 0 then [s]
            else take (nat i) s # Split (drop (nat i + length sep) s) sep))"
  by pat_completeness auto
termination
proof (relation "measure (\<lambda>(s, sep). length s)")
  show "wf (measure (\<lambda>(s, sep). length s))" by simp
next
  fix s sep :: string and i :: int
  assume ne: "sep \<noteq> []" and i: "i = Index s sep" and nneg: "\<not> i < 0"
  have bound: "0 \<le> Index t sep \<Longrightarrow> nat (Index t sep) + length sep \<le> length t" for t
  proof (induction t)
    case Nil
    then show ?case by (simp split: if_splits)
  next
    case (Cons c cs)
    show ?case
    proof (cases "prefix sep (c # cs)")
      case True
      then show ?thesis using prefix_length_le [of sep "c # cs"] by simp
    next
      case False
      with Cons.prems have nn: "0 \<le> Index cs sep"
        by (simp add: Let_def split: if_splits)
      with Cons.IH have "nat (Index cs sep) + length sep \<le> length cs" by simp
      with False nn show ?thesis by (simp add: Let_def nat_add_distrib)
    qed
  qed
  from i nneg have "nat i + length sep \<le> length s"
    using bound [of s] by simp
  moreover from ne have "0 < length sep" by simp
  ultimately have "length s - (nat i + length sep) < length s" by arith
  then show "((drop (nat i + length sep) s, sep), (s, sep)) \<in> measure (\<lambda>(s, sep). length s)"
    by simp
qed

declare Split.simps [simp del]

text \<open>\<^verbatim>\<open>strings.Join(elems, sep)\<close>: the elements concatenated with \<open>sep\<close> between them.\<close>

fun strings_Join :: "string list \<Rightarrow> string \<Rightarrow> string" where
  "strings_Join [] sep = []"
| "strings_Join [e] sep = e"
| "strings_Join (e # e' # es) sep = e @ sep @ strings_Join (e' # es) sep"

text \<open>
  \<^verbatim>\<open>filepath.Clean\<close> on Unix, which is purely lexical: empty and \<open>.\<close> elements are dropped, an
  inner \<open>..\<close> removes the element before it, a \<open>..\<close> that would climb above the root of a
  rooted path is dropped, and the empty result is \<open>.\<close>. \<open>cleanElems\<close> is the loop over the
  path elements, with the elements kept so far in reverse order.
\<close>

fun cleanElems :: "bool \<Rightarrow> string list \<Rightarrow> string list \<Rightarrow> string list" where
  "cleanElems rooted kept [] = rev kept"
| "cleanElems rooted kept (e # es) =
     (if e = [] \<or> e = ''.'' then cleanElems rooted kept es
      else if e = ''..'' then
        (case kept of
           [] \<Rightarrow> if rooted then cleanElems rooted [] es else cleanElems rooted [''..''] es
         | k # ks \<Rightarrow> if k = ''..'' then cleanElems rooted (''..'' # k # ks) es
                     else cleanElems rooted ks es)
      else cleanElems rooted (e # kept) es)"

definition Clean :: "string \<Rightarrow> string" where
  "Clean path =
     (if path = [] then ''.''
      else (let rooted = (hd path = CHR ''/'');
                out = (if rooted then ''/'' else []) @
                      strings_Join (cleanElems rooted [] (Split path ''/'')) ''/''
            in if out = [] then ''.'' else out))"

text \<open>
  \<^verbatim>\<open>filepath.Join(elem...)\<close>: empty elements are ignored, the rest is joined with the
  separator and cleaned; the result is empty when every element is.
\<close>

fun filepath_Join :: "string list \<Rightarrow> string" where
  "filepath_Join [] = []"
| "filepath_Join (e # es) =
     (if e = [] then filepath_Join es else Clean (strings_Join (e # es) ''/''))"

text \<open>
  Decimal rendering of an integer, as \<^verbatim>\<open>strconv.FormatInt(i, 10)\<close> and the verb \<open>%d\<close> of
  \<^verbatim>\<open>fmt\<close> produce it.
\<close>

fun digits :: "nat \<Rightarrow> string" where
  "digits n = (if n < 10 then [''0123456789'' ! n] else digits (n div 10) @ [''0123456789'' ! (n mod 10)])"

declare digits.simps [simp del]

definition FormatInt :: "int \<Rightarrow> string" where
  "FormatInt i = (if i < 0 then CHR ''-'' # digits (nat (- i)) else digits (nat i))"

section \<open>Query DSL: filter parsing (cmd/root.go)\<close>

text \<open>
  The operators of a Condition, as the data model lists them.
\<close>

datatype FilterOperator =
  EQUALS | CONTAINS | NOT_CONTAINS | IN | GREATER_THAN | LESS_THAN
  | GREATER_THAN_OR_EQUAL | LESS_THAN_OR_EQUAL

record Condition =
  Field :: string
  Operator :: FilterOperator
  Values :: "string list"

text \<open>
  Modelled from the spec: \<^verbatim>\<open>models.ParseFilterOperator\<close> is called by \<^verbatim>\<open>parseFilters\<close> but its
  file is not among the sources. The mapping of the eight shorthand operators to the
  operators of a Condition follows the specification (data model and testable properties:
  \<open>=\<close> is EQUALS, \<open>~\<close> CONTAINS, \<open>!~\<close> NOT_CONTAINS, \<open>@\<close> IN, \<open>>\<close> GREATER_THAN, \<open><\<close> LESS_THAN,
  \<open>>=\<close> GREATER_THAN_OR_EQUAL, \<open><=\<close> LESS_THAN_OR_EQUAL). The specification does not say
  what any other string is mapped to; \<^verbatim>\<open>parseFilters\<close> never passes one, and the model's
  last case is only there to make the function total.
\<close>

definition ParseFilterOperator :: "string \<Rightarrow> FilterOperator" where
  "ParseFilterOperator opr =
     (if opr = ''='' then EQUALS
      else if opr = ''~'' then CONTAINS
      else if opr = ''!~'' then NOT_CONTAINS
      else if opr = ''@'' then IN
      else if opr = ''>'' then GREATER_THAN
      else if opr = ''<'' then LESS_THAN
      else if opr = ''>='' then GREATER_THAN_OR_EQUAL
      else if opr = ''<='' then LESS_THAN_OR_EQUAL
      else EQUALS)"

text \<open>The operator list of \<^verbatim>\<open>parseFilters\<close>, in the order the source tries them.\<close>

definition operators :: "string list" where
  "operators = [''>='', ''<='', ''!~'', ''='', ''~'', ''@'', ''>'', ''<'']"

text \<open>
  The body of the inner loop for one operator: the Condition appended when the operator
  is found at \<open>idx > 0\<close>.
\<close>

definition mkCondition :: "string \<Rightarrow> string \<Rightarrow> int \<Rightarrow> Condition" where
  "mkCondition f opr idx =
     (let field = take (nat idx) f;
          val = drop (nat idx + length opr) f;
          apiOp = ParseFilterOperator opr;
          vals = (if opr = ''@'' then Split val '','' else [val])
      in \<lparr>Field = field, Operator = apiOp, Values = vals\<rparr>)"

text \<open>
  The inner loop over the operators for one filter token \<open>f\<close>: the first operator whose
  \<^const>\<open>Index\<close> in \<open>f\<close> is greater than 0 appends one Condition and breaks; when the loop runs
  out of operators, \<open>conditions\<close> is unchanged.
\<close>

fun scanOps :: "Condition list \<Rightarrow> string \<Rightarrow> string list \<Rightarrow> Condition list" where
  "scanOps conditions f [] = conditions"
| "scanOps conditions f (opr # oprs) =
     (let idx = Index f opr in
      if idx > 0 then conditions @ [mkCondition f opr idx]
      else scanOps conditions f oprs)"

text \<open>The outer loop: \<open>conditions\<close> starts empty and is threaded through the tokens.\<close>

definition parseFilters :: "string list \<Rightarrow> Condition list" where
  "parseFilters filters = foldl (\<lambda>conditions f. scanOps conditions f operators) [] filters"

text \<open>
  The filter grammar as the specification words it, to be compared with \<^const>\<open>parseFilters\<close>:
  the operators are tried in the order \<open>>=\<close>, \<open><=\<close>, \<open>!~\<close>, \<open>=\<close>, \<open>~\<close>, \<open>@\<close>, \<open>>\<close>, \<open><\<close>, and the
  first one found at a position greater than 0 wins (the position found is the operator's
  first occurrence in the token).
\<close>

definition firstOperator :: "string \<Rightarrow> string option" where
  "firstOperator f =
     find (\<lambda>opr. 0 < Index f opr) [''>='', ''<='', ''!~'', ''='', ''~'', ''@'', ''>'', ''<'']"

text \<open>
  The text before the winning operator is the field, the text after it the value; only
  \<open>@\<close> splits its value on commas.
\<close>

definition grammarCondition :: "string \<Rightarrow> Condition option" where
  "grammarCondition f =
     (case firstOperator f of
        None \<Rightarrow> None
      | Some opr \<Rightarrow>
          Some \<lparr>Field = take (nat (Index f opr)) f,
                Operator = ParseFilterOperator opr,
                Values = (if opr = ''@''
                          then Split (drop (nat (Index f opr) + length opr) f) '',''
                          else [drop (nat (Index f opr) + length opr) f])\<rparr>)"


section \<open>Configuration directory and token cache location (internal/config, internal/auth)\<close>

text \<open>
  The state the program reads and writes outside its local variables: the two
  package-level variables of the config package, the environment variable \<open>HOME\<close> (empty
  when it is not set), and the files, as a map from path to contents. The last field is
  instrumentation, not a variable of the program: it counts the token exchanges started so
  far, an exchange being the only place where the provider talks to the network.
\<close>

record sys =
  configDir :: string
  cfgProfile :: string
  HOME :: string
  files :: "string \<rightharpoonup> string"
  exchanges :: nat

text \<open>
  A call either returns a value and the new state, or ends the process through
  \<^verbatim>\<open>os.Exit\<close> with an exit code, after a message on standard error.
\<close>

datatype 'a outcome = Exit int string | Return 'a sys

definition SetProfile :: "string \<Rightarrow> sys \<Rightarrow> sys" where
  "SetProfile profile s = s\<lparr>cfgProfile := profile\<rparr>"

text \<open>\<^verbatim>\<open>os.UserHomeDir\<close> on Unix: the value of \<open>HOME\<close>, an error when it is empty.\<close>

definition UserHomeDir :: "sys \<Rightarrow> string + string" where
  "UserHomeDir s = (if HOME s \<noteq> [] then Inr (HOME s) else Inl ''$HOME is not defined'')"

definition ConfigDir :: "sys \<Rightarrow> string outcome" where
  "ConfigDir s =
     (if configDir s \<noteq> [] then Return (configDir s) s
      else (case UserHomeDir s of
              Inl err \<Rightarrow> Exit 3 (''Error: cannot determine home directory: '' @ err @ [CHR 0x0A])
            | Inr home \<Rightarrow>
                (let d = filepath_Join [home, ''.asa-cli'']
                 in Return d (s\<lparr>configDir := d\<rparr>))))"

definition cachePath :: "sys \<Rightarrow> string outcome" where
  "cachePath s =
     (case ConfigDir s of
        Exit code msg \<Rightarrow> Exit code msg
      | Return d s' \<Rightarrow> Return (filepath_Join [d, ''token_cache.json'']) s')"

text \<open>\<^verbatim>\<open>os.ReadFile\<close>: the contents of the file, or an error when there is no such file.\<close>

definition ReadFile :: "sys \<Rightarrow> string \<Rightarrow> string + string" where
  "ReadFile s name =
     (case files s name of
        None \<Rightarrow> Inl (''open '' @ name @ '': no such file or directory'')
      | Some data \<Rightarrow> Inr data)"

section \<open>Time\<close>

text \<open>
  A \<^verbatim>\<open>time.Time\<close> is modelled as the number of nanoseconds since the epoch, a
  \<^verbatim>\<open>time.Duration\<close> as the signed 64-bit count of nanoseconds that it is in Go, so that
  arithmetic on durations wraps around as it does there. There is one clock: the
  monotonic reading that Go keeps next to the wall clock is not modelled.
\<close>

type_synonym Time = int
type_synonym Duration = "64 word"

definition Second :: Duration where "Second = 1000000000"
definition Minute :: Duration where "Minute = 60 * Second"
definition Hour :: Duration where "Hour = 60 * Minute"

definition Add :: "Time \<Rightarrow> Duration \<Rightarrow> Time" where
  "Add t d = t + sint d"

definition Before :: "Time \<Rightarrow> Time \<Rightarrow> bool" where
  "Before t u \<longleftrightarrow> t < u"

section \<open>JWT assertion signer and token exchange (internal/auth/auth.go)\<close>

definition tokenURL :: string where "tokenURL = ''https://appleid.apple.com/auth/oauth2/token''"
definition tokenAud :: string where "tokenAud = ''https://appleid.apple.com''"
definition tokenScope :: string where "tokenScope = ''searchadsorg''"
definition jwtLifetime :: Duration where "jwtLifetime = 180 * 24 * Hour"

record Config =
  ClientID :: string
  TeamID :: string
  KeyID :: string
  OrgID :: string
  PrivateKeyPath :: string

record TokenCache =
  AccessToken :: string
  TokenType :: string
  ExpiresAt :: Time

record TokenProvider =
  cfg :: Config
  token :: "TokenCache option"

text \<open>
  The types of the JWT library that the signer fills in: a NumericDate wraps a time, the
  registered claims have optional dates (pointers in Go), and a token has a signing method,
  a header map and its claims.
\<close>

datatype NumericDate = NewNumericDate Time

record RegisteredClaims =
  Issuer :: string
  Subject :: string
  Audience :: "string list"
  Expires :: "NumericDate option"
  NotBefore :: "NumericDate option"
  IssuedAt :: "NumericDate option"
  ID :: string

record Token =
  SigningMethod :: string
  TokenHeader :: "string \<rightharpoonup> string"
  Claims :: RegisteredClaims

text \<open>
  \<^verbatim>\<open>jwt.NewWithClaims(method, claims)\<close>: a token whose header has the type and the
  algorithm of the method.
\<close>

definition NewWithClaims :: "string \<Rightarrow> RegisteredClaims \<Rightarrow> Token" where
  "NewWithClaims alg claims =
     \<lparr>SigningMethod = alg, TokenHeader = [''typ'' \<mapsto> ''JWT'', ''alg'' \<mapsto> alg], Claims = claims\<rparr>"

text \<open>The result of parsing a PKCS#8 container: an ECDSA key or a key of another kind.\<close>

datatype pkcs8_key = ECDSA string | OtherKey

text \<open>An HTTP response: the status, and the body as reading it to the end gives it.\<close>

record Response =
  StatusCode :: int
  Status :: string
  Proto :: string
  Body :: "string + string"

text \<open>
  An HTTP request, as far as the program uses it: the method, the URL as text, and the
  header, a map from keys to lists of values.
\<close>

record Request =
  Method :: string
  URL :: string
  Header :: "string \<rightharpoonup> string list"

text \<open>
  \<^verbatim>\<open>models.UserACL\<close> is declared in a file that is not among the sources. The record has the
  fields that the program uses (cmd/root.go and cmd/whoami.go): the name of the
  organization, its identifier (an \<^verbatim>\<open>int64\<close>: it is passed to \<^verbatim>\<open>strconv.FormatInt\<close>), the
  currency and the role names.
\<close>

record UserACL =
  OrgName :: string
  OrgID :: "64 word"
  Currency :: string
  RoleNames :: "string list"

text \<open>
  What one call of the provider meets outside the program: the readings of the clock
  (one for each call of \<^verbatim>\<open>time.Now\<close>), the library functions on bytes that the program
  calls (PEM and key parsing, signing, the JSON decoders and the encoder for the types they
  are used at), the answer of the identity provider to a form POST, and whether writing a
  file fails (\<open>None\<close>: it succeeds; \<open>Some fs\<close>: it fails and leaves the files as \<open>fs\<close>).
  A decoder returns the decoded value, or the error (its message where the program
  uses it). The last three fields are for the requests to the API: the answer of the
  default transport of the HTTP library to a request, the decoder of the response of the
  access-control-list endpoint (it returns the \<open>data\<close> field), and the error, if any, with
  which the library refuses to parse a URL.
\<close>

record env =
  Now_GetToken :: Time
  Now_generateClientSecret :: Time
  Now_exchangeToken :: Time
  pem_Decode :: "string \<Rightarrow> string option"
  ParsePKCS8PrivateKey :: "string \<Rightarrow> pkcs8_key option"
  ParseECPrivateKey :: "string \<Rightarrow> string option"
  SignedString :: "Token \<Rightarrow> string \<Rightarrow> string + string"
  PostForm :: "string \<Rightarrow> (string \<times> string list) list \<Rightarrow> string + Response"
  Unmarshal_errResp :: "string \<Rightarrow> string option"
  Unmarshal_tokenResp :: "string \<Rightarrow> string + (string \<times> string \<times> 64 word)"
  Unmarshal_TokenCache :: "string \<Rightarrow> TokenCache option"
  MarshalIndent :: "TokenCache \<Rightarrow> string option"
  WriteFile_fails :: "(string \<rightharpoonup> string) option"
  DefaultTransport :: "Request \<Rightarrow> string + Response"
  Unmarshal_acls :: "string \<Rightarrow> string + UserACL list"
  ParseURL_fails :: "string \<Rightarrow> string option"

definition loadPrivateKey :: "env \<Rightarrow> sys \<Rightarrow> string \<Rightarrow> string + string" where
  "loadPrivateKey e s path =
     (case ReadFile s path of
        Inl err \<Rightarrow> Inl (''reading private key file: '' @ err)
      | Inr data \<Rightarrow>
          (case pem_Decode e data of
             None \<Rightarrow> Inl ''no PEM block found in private key file''
           | Some block \<Rightarrow>
               (case ParsePKCS8PrivateKey e block of
                  Some (ECDSA ecKey) \<Rightarrow> Inr ecKey
                | Some OtherKey \<Rightarrow> Inl ''PKCS#8 key is not ECDSA''
                | None \<Rightarrow>
                    (case ParseECPrivateKey e block of
                       Some key \<Rightarrow> Inr key
                     | None \<Rightarrow>
                         Inl ''unable to parse private key (tried PKCS#8 and SEC1 formats)''))))"

text \<open>
  The assertion that \<^verbatim>\<open>generateClientSecret\<close> builds before it signs it: the claims, the
  ES256 token made of them, and the key identifier set in its header.
\<close>

definition clientAssertion :: "Config \<Rightarrow> Time \<Rightarrow> Token" where
  "clientAssertion c now =
     (let claims = \<lparr>Issuer = TeamID c,
                    Subject = ClientID c,
                    Audience = [tokenAud],
                    Expires = Some (NewNumericDate (Add now jwtLifetime)),
                    NotBefore = None,
                    IssuedAt = Some (NewNumericDate now),
                    ID = []\<rparr>;
          tok = NewWithClaims ''ES256'' claims
      in tok\<lparr>TokenHeader := (TokenHeader tok)(''kid'' \<mapsto> KeyID c)\<rparr>)"

definition generateClientSecret :: "env \<Rightarrow> TokenProvider \<Rightarrow> sys \<Rightarrow> string + string" where
  "generateClientSecret e tp s =
     (case loadPrivateKey e s (PrivateKeyPath (cfg tp)) of
        Inl err \<Rightarrow> Inl err
      | Inr key \<Rightarrow>
          SignedString e (clientAssertion (cfg tp) (Now_generateClientSecret e)) key)"

text \<open>
  \<^verbatim>\<open>exchangeToken\<close>. The struct that the token response is decoded into is the triple of
  its fields (access token, token type, expires-in); \<open>expires_in\<close> is a Go \<^verbatim>\<open>int\<close>, 64 bits
  wide, and its product with \<^const>\<open>Second\<close> is a 64-bit product.
\<close>

definition formData :: "TokenProvider \<Rightarrow> string \<Rightarrow> (string \<times> string list) list" where
  "formData tp clientSecret =
     [(''grant_type'', [''client_credentials'']),
      (''client_id'', [ClientID (cfg tp)]),
      (''client_secret'', [clientSecret]),
      (''scope'', [tokenScope])]"

definition exchangeToken :: "env \<Rightarrow> TokenProvider \<Rightarrow> sys \<Rightarrow> string + TokenCache" where
  "exchangeToken e tp s =
     (case generateClientSecret e tp s of
        Inl err \<Rightarrow> Inl (''generating client secret: '' @ err)
      | Inr clientSecret \<Rightarrow>
          (let data = formData tp clientSecret
           in case PostForm e tokenURL data of
                Inl err \<Rightarrow> Inl (''token exchange request failed: '' @ err)
              | Inr resp \<Rightarrow>
                  (case Body resp of
                     Inl err \<Rightarrow> Inl (''reading token response: '' @ err)
                   | Inr body \<Rightarrow>
                       if StatusCode resp \<noteq> 200 then
                         (case Unmarshal_errResp e body of
                            Some errResp_Error \<Rightarrow>
                              if errResp_Error \<noteq> [] then
                                Inl (''token exchange failed (HTTP '' @ FormatInt (StatusCode resp)
                                     @ ''): '' @ errResp_Error)
                              else Inl (''token exchange failed (HTTP ''
                                        @ FormatInt (StatusCode resp) @ '')'')
                          | None \<Rightarrow>
                              Inl (''token exchange failed (HTTP ''
                                   @ FormatInt (StatusCode resp) @ '')''))
                       else
                         (case Unmarshal_tokenResp e body of
                            Inl err \<Rightarrow> Inl (''parsing token response: '' @ err)
                          | Inr (accessToken, tokenType, expiresIn) \<Rightarrow>
                              Inr \<lparr>AccessToken = accessToken,
                                   TokenType = tokenType,
                                   ExpiresAt = Add (Now_exchangeToken e) (expiresIn * Second)\<rparr>))))"

section \<open>Token provider: cache and GetToken (internal/auth/auth.go)\<close>

definition loadCachedToken :: "env \<Rightarrow> sys \<Rightarrow> (TokenCache option) outcome" where
  "loadCachedToken e s =
     (case cachePath s of
        Exit code msg \<Rightarrow> Exit code msg
      | Return path s1 \<Rightarrow>
          (case ReadFile s1 path of
             Inl err \<Rightarrow> Return None s1
           | Inr data \<Rightarrow>
               (case Unmarshal_TokenCache e data of
                  None \<Rightarrow> Return None s1
                | Some cache \<Rightarrow> Return (Some cache) s1)))"

text \<open>
  \<^verbatim>\<open>os.WriteFile\<close>, whose error \<^verbatim>\<open>saveCachedToken\<close> drops: the file gets the data, unless the
  environment makes the write fail.
\<close>

definition WriteFile :: "env \<Rightarrow> string \<Rightarrow> string \<Rightarrow> sys \<Rightarrow> sys" where
  "WriteFile e name data s =
     (case WriteFile_fails e of
        None \<Rightarrow> s\<lparr>files := (files s)(name \<mapsto> data)\<rparr>
      | Some fs \<Rightarrow> s\<lparr>files := fs\<rparr>)"

text \<open>
  \<^verbatim>\<open>saveCachedToken\<close> returns nothing. It calls \<^verbatim>\<open>cachePath\<close> twice, once for the directory
  to create (directories are not part of the model of the files, and the result of
  \<^verbatim>\<open>os.MkdirAll\<close> is dropped) and once for the file to write.
\<close>

definition saveCachedToken :: "env \<Rightarrow> TokenCache \<Rightarrow> sys \<Rightarrow> unit outcome" where
  "saveCachedToken e tok s =
     (case MarshalIndent e tok of
        None \<Rightarrow> Return () s
      | Some data \<Rightarrow>
          (case cachePath s of
             Exit code msg \<Rightarrow> Exit code msg
           | Return dirOf s1 \<Rightarrow>
               (case cachePath s1 of
                  Exit code msg \<Rightarrow> Exit code msg
                | Return path s2 \<Rightarrow> Return () (WriteFile e path data s2))))"

text \<open>
  The second half of \<^verbatim>\<open>GetToken\<close> (``Generate new token''): exchange, store the record in
  memory, save it, return its access token.
\<close>

definition refreshToken :: "env \<Rightarrow> TokenProvider \<Rightarrow> sys \<Rightarrow> ((string + string) \<times> TokenProvider) outcome" where
  "refreshToken e tp s =
     (let s1 = s\<lparr>exchanges := Suc (exchanges s)\<rparr>
      in case exchangeToken e tp s1 of
           Inl err \<Rightarrow> Return (Inl err, tp) s1
         | Inr tok \<Rightarrow>
             (case saveCachedToken e tok s1 of
                Exit code msg \<Rightarrow> Exit code msg
              | Return u s2 \<Rightarrow> Return (Inr (AccessToken tok), tp\<lparr>token := Some tok\<rparr>) s2))"

text \<open>
  \<^verbatim>\<open>GetToken\<close> returns the token or an error, and leaves the provider and the state changed.
  The mutex that it holds from entry to return is not modelled: the model is one call
  running alone.
\<close>

definition GetToken :: "env \<Rightarrow> TokenProvider \<Rightarrow> sys \<Rightarrow> ((string + string) \<times> TokenProvider) outcome" where
  "GetToken e tp s =
     (case (if token tp = None then loadCachedToken e s else Return (token tp) s) of
        Exit code msg \<Rightarrow> Exit code msg
      | Return cached s1 \<Rightarrow>
          (let tp1 = tp\<lparr>token := cached\<rparr>
           in case token tp1 of
                None \<Rightarrow> refreshToken e tp1 s1
              | Some tok \<Rightarrow>
                  if Before (Add (Now_GetToken e) (5 * Minute)) (ExpiresAt tok)
                  then Return (Inr (AccessToken tok), tp1) s1
                  else refreshToken e tp1 s1))"

text \<open>
  The record that \<^const>\<open>GetToken\<close> looks at, in the words of the specification: the record in
  memory if there is one, else the record that the cache file decodes to, if any; and when
  a record is usable: the current time plus the safety margin of 5 minutes (in
  nanoseconds) is strictly before its expiry.
\<close>

definition cachedRecord :: "env \<Rightarrow> TokenProvider \<Rightarrow> sys \<Rightarrow> TokenCache option" where
  "cachedRecord e tp s =
     (case token tp of
        Some r \<Rightarrow> Some r
      | None \<Rightarrow> (case loadCachedToken e s of Exit code msg \<Rightarrow> None | Return r s' \<Rightarrow> r))"

definition usable :: "Time \<Rightarrow> TokenCache \<Rightarrow> bool" where
  "usable now r \<longleftrightarrow> now + 300000000000 < ExpiresAt r"

text \<open>
  The location of the token cache in words: the configuration directory is the one
  already determined in this process, else the directory \<open>.asa-cli\<close> in the home directory;
  the cache file is the file \<open>token_cache.json\<close> in the configuration directory. Neither
  mentions the profile.
\<close>

definition configDirOf :: "sys \<Rightarrow> string" where
  "configDirOf s =
     (if configDir s \<noteq> [] then configDir s else filepath_Join [HOME s, ''.asa-cli''])"

definition cacheFile :: "sys \<Rightarrow> string" where
  "cacheFile s = filepath_Join [configDirOf s, ''token_cache.json'']"

text \<open>
  The configuration directory can be determined: it is already known, or \<open>HOME\<close> is set.
  (\<^verbatim>\<open>config.Load\<close> calls \<^verbatim>\<open>ConfigDir\<close> before a provider is made.)
\<close>

definition dirKnown :: "sys \<Rightarrow> bool" where
  "dirKnown s \<longleftrightarrow> configDir s \<noteq> [] \<or> HOME s \<noteq> []"

section \<open>Authenticating transport (internal/auth/transport.go)\<close>

definition nl :: string where
  "nl = [CHR 0x0A]"

text \<open>
  \<^verbatim>\<open>textproto.CanonicalMIMEHeaderKey\<close>, which \<^verbatim>\<open>Header.Set\<close> applies to the key: when every byte
  of the key is a token character, the first letter and every letter after a hyphen are
  made upper case and the other letters lower case; a key with any other byte is returned
  unchanged.
\<close>

definition validHeaderFieldByte :: "char \<Rightarrow> bool" where
  "validHeaderFieldByte c =
     (let n = (of_char c :: nat)
      in (48 \<le> n \<and> n \<le> 57) \<or> (65 \<le> n \<and> n \<le> 90) \<or> (97 \<le> n \<and> n \<le> 122)
         \<or> n \<in> set [33, 35, 36, 37, 38, 39, 42, 43, 45, 46, 94, 95, 96, 124, 126])"

definition toUpper :: "char \<Rightarrow> char" where
  "toUpper c = (let n = (of_char c :: nat) in if 97 \<le> n \<and> n \<le> 122 then char_of (n - 32) else c)"

definition toLower :: "char \<Rightarrow> char" where
  "toLower c = (let n = (of_char c :: nat) in if 65 \<le> n \<and> n \<le> 90 then char_of (n + 32) else c)"

fun canonicalize :: "bool \<Rightarrow> string \<Rightarrow> string" where
  "canonicalize upper [] = []"
| "canonicalize upper (c # cs) =
     (let c' = (if upper then toUpper c else toLower c)
      in c' # canonicalize (c' = CHR ''-'') cs)"

definition CanonicalMIMEHeaderKey :: "string \<Rightarrow> string" where
  "CanonicalMIMEHeaderKey key =
     (if list_all validHeaderFieldByte key then canonicalize True key else key)"

definition Header_Set :: "(string \<rightharpoonup> string list) \<Rightarrow> string \<Rightarrow> string \<Rightarrow> (string \<rightharpoonup> string list)" where
  "Header_Set h key val = h(CanonicalMIMEHeaderKey key \<mapsto> [val])"

text \<open>
  The transport. Its provider is passed to \<open>RoundTrip\<close> as an argument of its own, since
  the call changes it; \<open>Base\<close> is \<open>None\<close> for Go's \<^verbatim>\<open>nil\<close>.
\<close>

record Transport =
  Base :: "(Request \<Rightarrow> string + Response) option"
  OrgID :: string
  Verbose :: bool

text \<open>The request that is sent: the clone with the two headers set.\<close>

definition authorize :: "Transport \<Rightarrow> string \<Rightarrow> Request \<Rightarrow> Request" where
  "authorize t tok req =
     (let req2 = req;
          req2 = req2\<lparr>Header := Header_Set (Header req2) ''Authorization'' (''Bearer '' @ tok)\<rparr>
      in if Transport.OrgID t \<noteq> []
         then req2\<lparr>Header := Header_Set (Header req2) ''X-AP-Context''
                                (''orgId='' @ Transport.OrgID t)\<rparr>
         else req2)"

text \<open>The verb \<open>%s\<close> on a list of strings: the strings in brackets, with spaces between.\<close>

definition fmt_strings :: "string list \<Rightarrow> string" where
  "fmt_strings v = ''['' @ strings_Join v '' '' @ '']''"

text \<open>The line that the trace prints for one header (the \<^verbatim>\<open>switch\<close> of the loop).\<close>

definition traceHeader :: "string \<Rightarrow> string list \<Rightarrow> string" where
  "traceHeader k v =
     (if k = ''Authorization'' then ''> '' @ k @ '': Bearer ***'' @ nl
      else if k = ''X-Ap-Context'' then ''> '' @ k @ '': orgId=***'' @ nl
      else ''> '' @ k @ '': '' @ fmt_strings v @ nl)"

text \<open>
  The trace before sending. Go ranges over the header map in an order that the runtime
  chooses; the order is the argument \<open>ks\<close>, a list of the keys (a key of \<open>ks\<close> that the
  header does not have prints nothing).
\<close>

definition traceRequest :: "string list \<Rightarrow> Request \<Rightarrow> string" where
  "traceRequest ks req2 =
     ''> '' @ Method req2 @ '' '' @ URL req2 @ nl
     @ concat (map (\<lambda>k. case Header req2 k of None \<Rightarrow> [] | Some v \<Rightarrow> traceHeader k v) ks)"

definition baseOf :: "env \<Rightarrow> Transport \<Rightarrow> Request \<Rightarrow> string + Response" where
  "baseOf e t = (case Base t of None \<Rightarrow> DefaultTransport e | Some b \<Rightarrow> b)"

text \<open>
  \<open>RoundTrip\<close> returns the response or an error, the provider as the call leaves it, and
  the text that it printed on standard output.
\<close>

definition RoundTrip ::
  "env \<Rightarrow> Transport \<Rightarrow> TokenProvider \<Rightarrow> sys \<Rightarrow> string list \<Rightarrow> Request
     \<Rightarrow> ((string + Response) \<times> TokenProvider \<times> string) outcome" where
  "RoundTrip e t tp s ks req =
     (case GetToken e tp s of
        Exit code msg \<Rightarrow> Exit code msg
      | Return (Inl err, tp') s' \<Rightarrow> Return (Inl (''auth: '' @ err), tp', []) s'
      | Return (Inr tok, tp') s' \<Rightarrow>
          (let req2 = authorize t tok req;
               base = baseOf e t;
               out1 = (if Verbose t then traceRequest ks req2 else [])
           in case base req2 of
                Inl err \<Rightarrow> Return (Inl err, tp', out1) s'
              | Inr resp \<Rightarrow>
                  Return (Inr resp, tp',
                          out1 @ (if Verbose t
                                  then ''< '' @ Status resp @ '' '' @ Proto resp @ nl
                                  else [])) s'))"

text \<open>The text that a call printed; a call that ended the process printed none.\<close>

fun printed :: "('a \<times> 'b \<times> string) outcome \<Rightarrow> string" where
  "printed (Exit code msg) = []"
| "printed (Return (r, tp, out) s) = out"

text \<open>
  The part of the answer of the underlying transport that the trace shows: the status
  line of the response, nothing for an error.
\<close>

fun statusLine :: "string + Response \<Rightarrow> (string \<times> string) option" where
  "statusLine (Inl err) = None"
| "statusLine (Inr resp) = Some (Status resp, Proto resp)"

section \<open>Organization resolution (cmd/root.go)\<close>

text \<open>
  \<^verbatim>\<open>http.NewRequest\<close> with no body: it fails when the URL does not parse. \<^verbatim>\<open>http.Client.Do\<close>
  with the transport of this program: one round trip through the transport, whose error
  comes back wrapped with the operation and the quoted URL (redirects and the timeout of
  the client are not modelled).
\<close>

definition NewRequest :: "env \<Rightarrow> string \<Rightarrow> string \<Rightarrow> string + Request" where
  "NewRequest e method url =
     (case ParseURL_fails e url of
        Some err \<Rightarrow> Inl err
      | None \<Rightarrow> Inr \<lparr>Method = method, URL = url, Header = Map.empty\<rparr>)"

definition Client_Do ::
  "env \<Rightarrow> Transport \<Rightarrow> TokenProvider \<Rightarrow> sys \<Rightarrow> string list \<Rightarrow> Request
     \<Rightarrow> ((string + Response) \<times> TokenProvider \<times> string) outcome" where
  "Client_Do e t tp s ks req =
     (case RoundTrip e t tp s ks req of
        Exit code msg \<Rightarrow> Exit code msg
      | Return (Inl err, tp', out) s' \<Rightarrow>
          Return (Inl (''Get '' @ [CHR 0x22] @ URL req @ [CHR 0x22] @ '': '' @ err), tp', out) s'
      | Return (Inr resp, tp', out) s' \<Rightarrow> Return (Inr resp, tp', out) s')"

text \<open>The line of the error message for one organization, when there are several.\<close>

definition aclLine :: "UserACL \<Rightarrow> string" where
  "aclLine acl = ''  '' @ OrgName acl @ '' (ID: '' @ FormatInt (sint (UserACL.OrgID acl)) @ '')''"

text \<open>
  \<open>resolveOrgID\<close>. The base URL of the API is a constant of a package that is not among the
  sources, and \<open>verbose\<close> is a global flag of the command: both are arguments here. The
  result is the organization identifier or an error, with the provider and the printed
  text.
\<close>

definition resolveOrgID ::
  "string \<Rightarrow> bool \<Rightarrow> env \<Rightarrow> TokenProvider \<Rightarrow> sys \<Rightarrow> string list
     \<Rightarrow> ((string + string) \<times> TokenProvider \<times> string) outcome" where
  "resolveOrgID BaseURL verbose e tokenProvider s ks =
     (let transport = \<lparr>Base = None, OrgID = [], Verbose = verbose\<rparr>
      in case NewRequest e ''GET'' (BaseURL @ ''/acls'') of
           Inl err \<Rightarrow> Return (Inl (''creating ACL request: '' @ err), tokenProvider, []) s
         | Inr req0 \<Rightarrow>
             (let req = req0\<lparr>Header := Header_Set (Header req0) ''Accept'' ''application/json''\<rparr>
              in case Client_Do e transport tokenProvider s ks req of
                   Exit code msg \<Rightarrow> Exit code msg
                 | Return (Inl err, tp', out) s' \<Rightarrow>
                     Return (Inl (''fetching orgs: '' @ err), tp', out) s'
                 | Return (Inr resp, tp', out) s' \<Rightarrow>
                     (case Body resp of
                        Inl err \<Rightarrow> Return (Inl (''reading org response: '' @ err), tp', out) s'
                      | Inr body \<Rightarrow>
                          (case Unmarshal_acls e body of
                             Inl err \<Rightarrow>
                               Return (Inl (''parsing org response: '' @ err), tp', out) s'
                           | Inr data \<Rightarrow>
                               if length data = 0 then
                                 Return (Inl ''no organizations found for this account'',
                                         tp', out) s'
                               else if length data = 1 then
                                 (let orgID = FormatInt (sint (UserACL.OrgID (data ! 0)))
                                  in Return (Inr orgID, tp',
                                       out @ (if verbose
                                              then ''Auto-selected org: '' @ OrgName (data ! 0)
                                                   @ '' (ID: '' @ orgID @ '')'' @ nl
                                              else [])) s')
                               else
                                 Return (Inl (''multiple organizations found. Use --org-id flag or set org_id in config:''
                                              @ nl @ strings_Join (map aclLine data) nl),
                                         tp', out) s'))))"

definition NewTokenProvider :: "Config \<Rightarrow> TokenProvider" where
  "NewTokenProvider c = \<lparr>cfg = c, token = None\<rparr>"

text \<open>
  The organization identifier that \<open>newAPIClient\<close> continues with (``Resolve org ID: flag >
  config > auto-detect''): the flag if it is given, else the configured one, else the one
  that \<^const>\<open>resolveOrgID\<close> returns; an error of \<^const>\<open>resolveOrgID\<close> is the error of
  \<open>newAPIClient\<close>.
\<close>

definition newAPIClient_orgID ::
  "string \<Rightarrow> bool \<Rightarrow> string \<Rightarrow> env \<Rightarrow> Config \<Rightarrow> sys \<Rightarrow> string list
     \<Rightarrow> ((string + string) \<times> TokenProvider \<times> string) outcome" where
  "newAPIClient_orgID BaseURL verbose globalOrgID e c s ks =
     (let orgID = Config.OrgID c;
          orgID = (if globalOrgID \<noteq> [] then globalOrgID else orgID);
          tokenProvider = NewTokenProvider c
      in if orgID = [] then
           (case resolveOrgID BaseURL verbose e tokenProvider s ks of
              Exit code msg \<Rightarrow> Exit code msg
            | Return (Inl err, tp', out) s' \<Rightarrow> Return (Inl err, tp', out) s'
            | Return (Inr resolved, tp', out) s' \<Rightarrow> Return (Inr resolved, tp', out) s')
         else Return (Inr orgID, tokenProvider, []) s)"

section \<open>Concrete inputs\<close>

text \<open>
  A configuration, a state and an environment on which the definitions can be run: the
  key file holds a PKCS#8 ECDSA key, the identity provider answers the POST with the
  response given as parameter, and the decoders know the bodies used below.
\<close>

definition cfg0 :: Config where
  "cfg0 = \<lparr>ClientID = ''SEARCHADS.client'', TeamID = ''SEARCHADS.team'', KeyID = ''key-1'',
           OrgID = [], PrivateKeyPath = ''/home/u/.asa-cli/private-key.pem''\<rparr>"

definition sys0 :: sys where
  "sys0 = \<lparr>configDir = [], cfgProfile = [], HOME = ''/home/u'',
           files = [''/home/u/.asa-cli/private-key.pem'' \<mapsto> ''PEM''], exchanges = 0\<rparr>"

definition respAcls :: Response where
  "respAcls = \<lparr>StatusCode = 200, Status = ''200 OK'', Proto = ''HTTP/2.0'',
               Body = Inr ''{data:[{orgId:40669820,orgName:Acme}]}''\<rparr>"

definition env0 :: "Response \<Rightarrow> env" where
  "env0 resp =
     \<lparr>Now_GetToken = 1700000000000000000,
      Now_generateClientSecret = 1700000000000000000,
      Now_exchangeToken = 1700000001000000000,
      pem_Decode = (\<lambda>data. if data = ''PEM'' then Some ''DER'' else None),
      ParsePKCS8PrivateKey = (\<lambda>der. if der = ''DER'' then Some (ECDSA ''private-key'') else None),
      ParseECPrivateKey = (\<lambda>der. None),
      SignedString = (\<lambda>tok key. Inr ''signed-assertion''),
      PostForm = (\<lambda>url data. Inr resp),
      Unmarshal_errResp =
        (\<lambda>body. if body = ''{error:invalid_client}'' then Some ''invalid_client'' else None),
      Unmarshal_tokenResp =
        (\<lambda>body. if body = ''{access_token:abc,token_type:Bearer,expires_in:3600}''
                then Inr (''abc'', ''Bearer'', 3600)
                else Inl ''invalid character''),
      Unmarshal_TokenCache = (\<lambda>data. None),
      MarshalIndent = (\<lambda>tok. Some ''cache''),
      WriteFile_fails = None,
      DefaultTransport = (\<lambda>req. Inr respAcls),
      Unmarshal_acls =
        (\<lambda>body. if body = ''{data:[{orgId:40669820,orgName:Acme}]}''
                then Inr [\<lparr>OrgName = ''Acme'', OrgID = 40669820, Currency = ''USD'',
                           RoleNames = [''API Account Manager'']\<rparr>]
                else if body = ''{data:[]}'' then Inr []
                else if body = ''{data:[{orgId:1,orgName:A},{orgId:2,orgName:B}]}''
                then Inr [\<lparr>OrgName = ''A'', OrgID = 1, Currency = ''USD'', RoleNames = []\<rparr>,
                          \<lparr>OrgName = ''B'', OrgID = 2, Currency = ''EUR'', RoleNames = []\<rparr>]
                else Inl ''invalid character''),
      ParseURL_fails = (\<lambda>url. None)\<rparr>"

definition tokenBody :: string where
  "tokenBody = ''{access_token:abc,token_type:Bearer,expires_in:3600}''"

definition resp200 :: Response where
  "resp200 = \<lparr>StatusCode = 200, Status = ''200 OK'', Proto = ''HTTP/2.0'', Body = Inr tokenBody\<rparr>"

definition resp201 :: Response where
  "resp201 = \<lparr>StatusCode = 201, Status = ''201 Created'', Proto = ''HTTP/2.0'',
              Body = Inr tokenBody\<rparr>"

definition resp400 :: Response where
  "resp400 = \<lparr>StatusCode = 400, Status = ''400 Bad Request'', Proto = ''HTTP/2.0'',
              Body = Inr ''{error:invalid_client}''\<rparr>"

text \<open>
  Providers with no record, with a record that expires an hour after the clock reading
  of \<^const>\<open>env0\<close>, and with one that expires exactly 5 minutes after it.
\<close>

definition tpNone :: TokenProvider where
  "tpNone = \<lparr>cfg = cfg0, token = None\<rparr>"

definition recFresh :: TokenCache where
  "recFresh = \<lparr>AccessToken = ''cached'', TokenType = ''Bearer'', ExpiresAt = 1700003600000000000\<rparr>"

definition recDue :: TokenCache where
  "recDue = \<lparr>AccessToken = ''due'', TokenType = ''Bearer'', ExpiresAt = 1700000300000000000\<rparr>"

definition recNew :: TokenCache where
  "recNew = \<lparr>AccessToken = ''abc'', TokenType = ''Bearer'', ExpiresAt = 1700003601000000000\<rparr>"

text \<open>
  Two transports with different organization identifiers, a request and an order of its
  header keys.
\<close>

definition transportA :: Transport where
  "transportA = \<lparr>Base = None, OrgID = ''40669820'', Verbose = True\<rparr>"

definition transportB :: Transport where
  "transportB = \<lparr>Base = None, OrgID = ''123'', Verbose = True\<rparr>"

definition reqCampaigns :: Request where
  "reqCampaigns = \<lparr>Method = ''GET'', URL = ''https://api.example/api/v5/campaigns'',
                   Header = [''Accept'' \<mapsto> [''application/json'']]\<rparr>"

definition keyOrder :: "string list" where
  "keyOrder = [''Accept'', ''Authorization'', ''X-Ap-Context'']"

text \<open>
  Answers of the access-control-list endpoint with no organization and with two, and the
  environment of \<^const>\<open>env0\<close> with a given answer of the default transport.
\<close>

definition respNoOrg :: Response where
  "respNoOrg = \<lparr>StatusCode = 200, Status = ''200 OK'', Proto = ''HTTP/2.0'',
                Body = Inr ''{data:[]}''\<rparr>"

definition respTwoOrgs :: Response where
  "respTwoOrgs = \<lparr>StatusCode = 200, Status = ''200 OK'', Proto = ''HTTP/2.0'',
                  Body = Inr ''{data:[{orgId:1,orgName:A},{orgId:2,orgName:B}]}''\<rparr>"

definition envAcls :: "Response \<Rightarrow> env" where
  "envAcls resp = (env0 resp200)\<lparr>DefaultTransport := (\<lambda>req. Inr resp)\<rparr>"

definition apiURL :: string where
  "apiURL = ''https://api.example/api/v5''"

text \<open>
  A state whose cache file holds a record, and an environment whose decoder reads it as
  \<^const>\<open>recFresh\<close>.
\<close>

definition sysDisk :: sys where
  "sysDisk = sys0\<lparr>files := (files sys0)(''/home/u/.asa-cli/token_cache.json'' \<mapsto> ''cache'')\<rparr>"

definition envDisk :: env where
  "envDisk = (env0 resp200)\<lparr>Unmarshal_TokenCache :=
               (\<lambda>data. if data = ''cache'' then Some recFresh else None)\<rparr>"

section \<open>Properties of the filter parser\<close>

lemma scanOps_append: "scanOps conditions f oprs = conditions @ scanOps [] f oprs"
  by (induction oprs) (simp_all add: Let_def)

lemma scanOps_find:
  "scanOps [] f oprs =
     (case find (\<lambda>opr. 0 < Index f opr) oprs of None \<Rightarrow> []
      | Some opr \<Rightarrow> [mkCondition f opr (Index f opr)])"
  by (induction oprs) (simp_all add: Let_def)

lemma foldl_scanOps:
  "foldl (\<lambda>conditions f. scanOps conditions f oprs) acc filters =
     acc @ concat (map (\<lambda>f. scanOps [] f oprs) filters)"
proof (induction filters arbitrary: acc)
  case Nil
  then show ?case by simp
next
  case (Cons f fs)
  show ?case by (simp add: Cons.IH scanOps_append [of acc f oprs])
qed


lemma parseFilters_concat:
  "parseFilters filters = concat (map (\<lambda>f. scanOps [] f operators) filters)"
  by (simp add: parseFilters_def foldl_scanOps)

lemma mkCondition_eq:
  "mkCondition f opr idx =
     \<lparr>Field = take (nat idx) f,
      Operator = ParseFilterOperator opr,
      Values = (if opr = ''@'' then Split (drop (nat idx + length opr) f) '',''
                else [drop (nat idx + length opr) f])\<rparr>"
  by (simp only: mkCondition_def Let_def)

lemma firstOperator_find: "firstOperator f = find (\<lambda>opr. 0 < Index f opr) operators"
  by (simp only: firstOperator_def operators_def)

lemma scanOps_grammar:
  "scanOps [] f operators = (case grammarCondition f of None \<Rightarrow> [] | Some c \<Rightarrow> [c])"
proof (cases "firstOperator f")
  case None
  then show ?thesis
    using scanOps_find [of f operators]
    by (simp only: grammarCondition_def firstOperator_find [symmetric] option.case)
next
  case (Some opr)
  then show ?thesis
    using scanOps_find [of f operators]
    by (simp only: grammarCondition_def firstOperator_find [symmetric] option.case
        mkCondition_eq)
qed

text \<open>
  Claim C4. For every list of filter tokens, \<^const>\<open>parseFilters\<close> produces, token by token
  and in order, the Condition that the grammar gives: the operators are tried in the order
  \<open>>=\<close>, \<open><=\<close>, \<open>!~\<close>, \<open>=\<close>, \<open>~\<close>, \<open>@\<close>, \<open>>\<close>, \<open><\<close>, the first one found at a position greater than
  0 wins, the text before it is the field, the text after it the value, and only \<open>@\<close>
  splits the value on commas. The four examples of the specification are evaluated.
\<close>

theorem parseFilters_grammar:
  "parseFilters filters = List.map_filter grammarCondition filters
   \<and> parseFilters [''status=ENABLED'']
       = [\<lparr>Field = ''status'', Operator = EQUALS, Values = [''ENABLED'']\<rparr>]
   \<and> parseFilters [''id>1000'']
       = [\<lparr>Field = ''id'', Operator = GREATER_THAN, Values = [''1000'']\<rparr>]
   \<and> parseFilters [''status@ENABLED,PAUSED'']
       = [\<lparr>Field = ''status'', Operator = IN, Values = [''ENABLED'', ''PAUSED'']\<rparr>]
   \<and> parseFilters [''name!~Test'']
       = [\<lparr>Field = ''name'', Operator = NOT_CONTAINS, Values = [''Test'']\<rparr>]"
proof -
  have gen: "parseFilters fs = List.map_filter grammarCondition fs" for fs
  proof (induction fs)
    case Nil
    show ?case by (simp add: parseFilters_concat List.map_filter_simps)
  next
    case (Cons f fs)
    then show ?case
      by (simp add: parseFilters_concat scanOps_grammar List.map_filter_simps
          split: option.splits)
  qed
  have e1: "parseFilters [''status=ENABLED'']
       = [\<lparr>Field = ''status'', Operator = EQUALS, Values = [''ENABLED'']\<rparr>]"
    by code_simp
  have e2: "parseFilters [''id>1000'']
       = [\<lparr>Field = ''id'', Operator = GREATER_THAN, Values = [''1000'']\<rparr>]"
    by code_simp
  have e3: "parseFilters [''status@ENABLED,PAUSED'']
       = [\<lparr>Field = ''status'', Operator = IN, Values = [''ENABLED'', ''PAUSED'']\<rparr>]"
    by code_simp
  have e4: "parseFilters [''name!~Test'']
       = [\<lparr>Field = ''name'', Operator = NOT_CONTAINS, Values = [''Test'']\<rparr>]"
    by code_simp
  from gen e1 e2 e3 e4 show ?thesis by blast
qed





section \<open>Properties of the cache location\<close>

lemma Clean_nonempty: "Clean path \<noteq> []"
  by (simp add: Clean_def Let_def)

lemma configDirOf_nonempty: "dirKnown s \<Longrightarrow> configDirOf s \<noteq> []"
  by (simp add: configDirOf_def dirKnown_def Clean_nonempty)

lemma ConfigDir_eq:
  assumes "dirKnown s"
  shows "ConfigDir s = Return (configDirOf s) (s\<lparr>configDir := configDirOf s\<rparr>)"
  using assms
  by (simp add: ConfigDir_def UserHomeDir_def configDirOf_def dirKnown_def Let_def)

lemma cachePath_eq:
  assumes "dirKnown s"
  shows "cachePath s = Return (cacheFile s) (s\<lparr>configDir := configDirOf s\<rparr>)"
  by (simp add: cachePath_def ConfigDir_eq [OF assms] cacheFile_def)

lemma memo_dirKnown:
  assumes "dirKnown s"
  shows "dirKnown (s\<lparr>configDir := configDirOf s\<rparr>)"
    and "configDirOf (s\<lparr>configDir := configDirOf s\<rparr>) = configDirOf s"
    and "cacheFile (s\<lparr>configDir := configDirOf s\<rparr>) = cacheFile s"
  using configDirOf_nonempty [OF assms]
  by (simp_all add: dirKnown_def configDirOf_def cacheFile_def)

lemma loadCachedToken_eq:
  assumes "dirKnown s"
  shows "loadCachedToken e s =
           Return (case files s (cacheFile s) of None \<Rightarrow> None
                   | Some data \<Rightarrow> Unmarshal_TokenCache e data)
                  (s\<lparr>configDir := configDirOf s\<rparr>)"
  by (simp add: loadCachedToken_def cachePath_eq [OF assms] ReadFile_def
      split: option.splits)

lemma saveCachedToken_eq:
  assumes "dirKnown s"
  shows "saveCachedToken e tok s =
           Return () (case MarshalIndent e tok of None \<Rightarrow> s
                      | Some data \<Rightarrow>
                          WriteFile e (cacheFile s) data (s\<lparr>configDir := configDirOf s\<rparr>))"
  using memo_dirKnown [OF assms]
  by (simp add: saveCachedToken_def cachePath_eq [OF assms] cachePath_eq
      split: option.splits)

lemma SetProfile_location:
  "dirKnown (SetProfile p s) = dirKnown s"
  "configDirOf (SetProfile p s) = configDirOf s"
  "cacheFile (SetProfile p s) = cacheFile s"
  "files (SetProfile p s) = files s"
  by (simp_all add: SetProfile_def dirKnown_def configDirOf_def cacheFile_def)


lemma SetProfile_twice: "SetProfile q (SetProfile p s) = SetProfile q s"
  by (simp add: SetProfile_def)

lemma SetProfile_update:
  "(SetProfile p s)\<lparr>configDir := d\<rparr> = SetProfile p (s\<lparr>configDir := d\<rparr>)"
  "(SetProfile p s)\<lparr>files := fs\<rparr> = SetProfile p (s\<lparr>files := fs\<rparr>)"
  by (simp_all add: SetProfile_def)

text \<open>
  Claim C2, as amended. When the configuration directory can be determined, then under
  every profile \<open>p\<close>: \<^const>\<open>ConfigDir\<close> returns the directory already determined, else
  \<open>.asa-cli\<close> in the home directory; \<^const>\<open>cachePath\<close> returns the file \<open>token_cache.json\<close> in that
  directory; \<^const>\<open>loadCachedToken\<close> returns what that file decodes to (nothing when the file
  is missing or does not decode); and \<^const>\<open>saveCachedToken\<close>, when the record encodes and the
  write succeeds, leaves the encoded record in that file. None of the four depends on
  \<open>p\<close>, so all profiles of one configuration directory share one token cache file: a
  record saved under profile \<open>p\<close> is the record loaded under any profile \<open>q\<close>.
\<close>

theorem cachePath_ignores_profile:
  assumes dk: "dirKnown s"
  shows "configDirOf s
           = (if configDir s \<noteq> [] then configDir s else filepath_Join [HOME s, ''.asa-cli''])
       \<and> ConfigDir (SetProfile p s)
           = Return (configDirOf s) (SetProfile p (s\<lparr>configDir := configDirOf s\<rparr>))
       \<and> cachePath (SetProfile p s)
           = Return (filepath_Join [configDirOf s, ''token_cache.json''])
               (SetProfile p (s\<lparr>configDir := configDirOf s\<rparr>))
       \<and> loadCachedToken e (SetProfile p s)
           = Return (case files s (filepath_Join [configDirOf s, ''token_cache.json'']) of
                       None \<Rightarrow> None
                     | Some data \<Rightarrow> Unmarshal_TokenCache e data)
               (SetProfile p (s\<lparr>configDir := configDirOf s\<rparr>))
       \<and> (MarshalIndent e tok = Some data \<and> WriteFile_fails e = None \<longrightarrow>
            saveCachedToken e tok (SetProfile p s)
              = Return ()
                  (SetProfile p
                     (s\<lparr>configDir := configDirOf s,
                        files := (files s)(filepath_Join [configDirOf s, ''token_cache.json'']
                                           \<mapsto> data)\<rparr>))
            \<and> (Unmarshal_TokenCache e' data = Some tok \<longrightarrow>
                 loadCachedToken e'
                   (SetProfile q
                     (SetProfile p
                       (s\<lparr>configDir := configDirOf s,
                          files := (files s)(filepath_Join [configDirOf s, ''token_cache.json'']
                                             \<mapsto> data)\<rparr>)))
                 = Return (Some tok)
                     (SetProfile q
                       (s\<lparr>configDir := configDirOf s,
                          files := (files s)(filepath_Join [configDirOf s, ''token_cache.json'']
                                             \<mapsto> data)\<rparr>))))"
proof -
  let ?m = "s\<lparr>configDir := configDirOf s\<rparr>"
  let ?f = "filepath_Join [configDirOf s, ''token_cache.json'']"
  have f: "cacheFile s = ?f" by (simp add: cacheFile_def)
  have dkp: "dirKnown (SetProfile r s)" for r using dk by (simp add: SetProfile_location)
  have p1: "configDirOf s
           = (if configDir s \<noteq> [] then configDir s else filepath_Join [HOME s, ''.asa-cli''])"
    by (simp add: configDirOf_def)
  have p2: "ConfigDir (SetProfile p s) = Return (configDirOf s) (SetProfile p ?m)"
    by (simp add: ConfigDir_eq [OF dkp] SetProfile_location SetProfile_update)
  have p3: "cachePath (SetProfile p s) = Return ?f (SetProfile p ?m)"
    by (simp add: cachePath_eq [OF dkp] SetProfile_location SetProfile_update f)
  have p4: "loadCachedToken e (SetProfile p s)
           = Return (case files s ?f of None \<Rightarrow> None
                     | Some data \<Rightarrow> Unmarshal_TokenCache e data) (SetProfile p ?m)"
    by (simp add: loadCachedToken_eq [OF dkp] SetProfile_location SetProfile_update f)
  let ?w = "s\<lparr>configDir := configDirOf s, files := (files s)(?f \<mapsto> data)\<rparr>"
  have p5: "saveCachedToken e tok (SetProfile p s) = Return () (SetProfile p ?w)"
    if "MarshalIndent e tok = Some data \<and> WriteFile_fails e = None"
    using that
    by (simp add: saveCachedToken_eq [OF dkp] SetProfile_location SetProfile_update f
        WriteFile_def)
  have dkw: "dirKnown ?w" using memo_dirKnown(1) [OF dk] by (simp add: dirKnown_def)
  have cw: "configDirOf ?w = configDirOf s"
    using configDirOf_nonempty [OF dk] by (simp add: configDirOf_def)
  have fw: "cacheFile ?w = ?f" by (simp only: cacheFile_def cw)
  have mw: "?w\<lparr>configDir := configDirOf ?w\<rparr> = ?w"
    by (simp only: cw) (simp del: filepath_Join.simps)
  have dkq: "dirKnown (SetProfile q ?w)" using dkw by (simp add: SetProfile_location)
  have p6: "loadCachedToken e' (SetProfile q (SetProfile p ?w)) = Return (Some tok) (SetProfile q ?w)"
    if "Unmarshal_TokenCache e' data = Some tok"
    using that
    by (simp only: SetProfile_twice loadCachedToken_eq [OF dkq] SetProfile_location
        SetProfile_update fw mw cw) (simp add: SetProfile_def del: filepath_Join.simps)
  show ?thesis
    apply (intro conjI)
        apply (rule p1)
       apply (rule p2)
      apply (rule p3)
     apply (rule p4)
    apply (rule impI)
    apply (rule conjI)
     apply (erule p5)
    apply (rule impI)
    apply (erule p6)
    done
qed


theorem cachePath_ignores_profile_witness:
  "dirKnown sys0
   \<and> MarshalIndent (env0 resp200) recFresh = Some ''cache''
   \<and> WriteFile_fails (env0 resp200) = None
   \<and> Unmarshal_TokenCache envDisk ''cache'' = Some recFresh
   \<and> ConfigDir (SetProfile ''production'' sys0)
       = Return ''/home/u/.asa-cli''
           (SetProfile ''production'' (sys0\<lparr>configDir := ''/home/u/.asa-cli''\<rparr>))
   \<and> cachePath (SetProfile ''production'' sys0)
       = Return ''/home/u/.asa-cli/token_cache.json''
           (SetProfile ''production'' (sys0\<lparr>configDir := ''/home/u/.asa-cli''\<rparr>))
   \<and> saveCachedToken (env0 resp200) recFresh (SetProfile ''production'' sys0)
       = Return ()
           (SetProfile ''production''
              (sys0\<lparr>configDir := ''/home/u/.asa-cli'',
                    files := (files sys0)(''/home/u/.asa-cli/token_cache.json'' \<mapsto> ''cache'')\<rparr>))
   \<and> loadCachedToken envDisk
         (SetProfile ''staging''
            (SetProfile ''production''
               (sys0\<lparr>configDir := ''/home/u/.asa-cli'',
                     files := (files sys0)(''/home/u/.asa-cli/token_cache.json'' \<mapsto> ''cache'')\<rparr>)))
       = Return (Some recFresh)
           (SetProfile ''staging''
              (sys0\<lparr>configDir := ''/home/u/.asa-cli'',
                    files := (files sys0)(''/home/u/.asa-cli/token_cache.json'' \<mapsto> ''cache'')\<rparr>))"
proof -
  have dk: "dirKnown sys0" by (simp add: dirKnown_def sys0_def)
  have m: "MarshalIndent (env0 resp200) recFresh = Some ''cache''" by (simp add: env0_def)
  have w: "WriteFile_fails (env0 resp200) = None" by (simp add: env0_def)
  have u: "Unmarshal_TokenCache envDisk ''cache'' = Some recFresh" by (simp add: envDisk_def)
  have cd: "configDirOf sys0 = ''/home/u/.asa-cli''"
    by (simp add: configDirOf_def sys0_def Clean_def Split.simps)
  have jf: "filepath_Join [''/home/u/.asa-cli'', ''token_cache.json'']
              = ''/home/u/.asa-cli/token_cache.json''"
    by (simp add: Clean_def Split.simps)
  note t = cachePath_ignores_profile [OF dk, of "''production''" "env0 resp200" recFresh
      "''cache''" envDisk "''staging''", unfolded cd jf]
  from t have t2: "ConfigDir (SetProfile ''production'' sys0)
       = Return ''/home/u/.asa-cli''
           (SetProfile ''production'' (sys0\<lparr>configDir := ''/home/u/.asa-cli''\<rparr>))"
    by (elim conjE)
  from t have t3: "cachePath (SetProfile ''production'' sys0)
       = Return ''/home/u/.asa-cli/token_cache.json''
           (SetProfile ''production'' (sys0\<lparr>configDir := ''/home/u/.asa-cli''\<rparr>))"
    by (elim conjE)
  note t5 = t [THEN conjunct2, THEN conjunct2, THEN conjunct2, THEN conjunct2, THEN mp,
      OF conjI [OF m w]]
  note t6 = t5 [THEN conjunct2, THEN mp, OF u]
  from dk m w u t2 t3 t5 [THEN conjunct1] t6 show ?thesis by (intro conjI)
qed

text \<open>
  Claim C2 as stated fails: under the two distinct profiles \<open>production\<close> and \<open>staging\<close> the
  cache file is the same file.
\<close>

theorem cachePath_shared_counterexample:
  "''production'' \<noteq> ''staging''
   \<and> cachePath (SetProfile ''production'' sys0)
     = Return ''/home/u/.asa-cli/token_cache.json''
         (SetProfile ''production'' (sys0\<lparr>configDir := ''/home/u/.asa-cli''\<rparr>))
   \<and> cachePath (SetProfile ''staging'' sys0)
     = Return ''/home/u/.asa-cli/token_cache.json''
         (SetProfile ''staging'' (sys0\<lparr>configDir := ''/home/u/.asa-cli''\<rparr>))"
  by (simp add: cachePath_def ConfigDir_def UserHomeDir_def SetProfile_def sys0_def Let_def
        Clean_def Split.simps)

section \<open>Properties of the token provider\<close>

lemma five_minutes: "sint (5 * Minute) = 300000000000"
  by (simp add: Minute_def Second_def)

lemma Before_usable: "Before (Add now (5 * Minute)) (ExpiresAt r) \<longleftrightarrow> usable now r"
  by (simp add: Before_def Add_def usable_def five_minutes)

lemma cachePath_dirKnown:
  assumes "dirKnown s"
  shows "\<exists>p s'. cachePath s = Return p s' \<and> files s' = files s \<and> exchanges s' = exchanges s
           \<and> dirKnown s'"
  using assms
  by (auto simp: cachePath_def ConfigDir_def UserHomeDir_def dirKnown_def Let_def)

lemma loadCachedToken_dirKnown:
  assumes "dirKnown s"
  shows "\<exists>r s'. loadCachedToken e s = Return r s' \<and> files s' = files s
           \<and> exchanges s' = exchanges s \<and> dirKnown s'"
proof -
  from cachePath_dirKnown [OF assms] obtain p s' where
    "cachePath s = Return p s'" "files s' = files s" "exchanges s' = exchanges s" "dirKnown s'"
    by blast
  then show ?thesis
    by (simp add: loadCachedToken_def split: sum.splits option.splits)
qed

lemma saveCachedToken_dirKnown:
  assumes "dirKnown s"
  shows "\<exists>s'. saveCachedToken e tok s = Return () s' \<and> exchanges s' = exchanges s"
proof (cases "MarshalIndent e tok")
  case None
  then show ?thesis by (simp add: saveCachedToken_def)
next
  case (Some data)
  from cachePath_dirKnown [OF assms] obtain p1 s1 where
    c1: "cachePath s = Return p1 s1" "exchanges s1 = exchanges s" "dirKnown s1"
    by blast
  from cachePath_dirKnown [OF c1(3)] obtain p2 s2 where
    c2: "cachePath s1 = Return p2 s2" "exchanges s2 = exchanges s1"
    by blast
  from Some c1 c2 show ?thesis
    by (simp add: saveCachedToken_def WriteFile_def split: option.splits)
qed

lemma exchangeToken_files:
  assumes "cfg tp' = cfg tp" "files s' = files s"
  shows "exchangeToken e tp' s' = exchangeToken e tp s"
proof -
  have g: "generateClientSecret e tp' s' = generateClientSecret e tp s"
    unfolding generateClientSecret_def loadPrivateKey_def ReadFile_def assms ..
  have f: "formData tp' = formData tp"
    using assms by (simp add: formData_def fun_eq_iff)
  show ?thesis by (simp only: exchangeToken_def g f)
qed

lemma refreshToken_dirKnown:
  assumes "dirKnown s"
  shows "\<exists>s'. refreshToken e tp s =
           Return (case exchangeToken e tp s of Inl err \<Rightarrow> (Inl err, tp)
                   | Inr tok \<Rightarrow> (Inr (AccessToken tok), tp\<lparr>token := Some tok\<rparr>)) s'
         \<and> exchanges s' = Suc (exchanges s)"
proof -
  let ?s1 = "s\<lparr>exchanges := Suc (exchanges s)\<rparr>"
  have ex: "exchangeToken e tp ?s1 = exchangeToken e tp s"
    by (rule exchangeToken_files) simp_all
  have dk: "dirKnown ?s1" using assms by (simp add: dirKnown_def)
  show ?thesis
  proof (cases "exchangeToken e tp s")
    case (Inl err)
    with ex show ?thesis by (simp add: refreshToken_def Let_def)
  next
    case (Inr tok)
    from saveCachedToken_dirKnown [OF dk, of e tok] obtain s' where
      "saveCachedToken e tok ?s1 = Return () s'" "exchanges s' = exchanges ?s1"
      by blast
    with ex Inr show ?thesis by (simp add: refreshToken_def Let_def)
  qed
qed


lemma saveCachedToken_files:
  assumes "dirKnown s"
  shows "\<exists>s'. saveCachedToken e tok s = Return () s' \<and> exchanges s' = exchanges s
           \<and> (MarshalIndent e tok = None \<longrightarrow> files s' = files s)
           \<and> (MarshalIndent e tok \<noteq> None \<and> WriteFile_fails e = Some fs \<longrightarrow> files s' = fs)"
proof (cases "MarshalIndent e tok")
  case None
  then show ?thesis by (simp add: saveCachedToken_def)
next
  case (Some data)
  from cachePath_dirKnown [OF assms] obtain p1 s1 where
    c1: "cachePath s = Return p1 s1" "exchanges s1 = exchanges s" "dirKnown s1"
    by blast
  from cachePath_dirKnown [OF c1(3)] obtain p2 s2 where
    c2: "cachePath s1 = Return p2 s2" "exchanges s2 = exchanges s1"
    by blast
  from Some c1 c2 show ?thesis
    by (simp add: saveCachedToken_def WriteFile_def split: option.splits)
qed

lemma GetToken_usable:
  assumes dk: "dirKnown s" and rec: "cachedRecord e tp s = Some r"
    and us: "usable (Now_GetToken e) r"
  shows "\<exists>s'. GetToken e tp s = Return (Inr (AccessToken r), tp\<lparr>token := Some r\<rparr>) s'
           \<and> exchanges s' = exchanges s"
proof (cases "token tp")
  case None
  from loadCachedToken_dirKnown [OF dk, of e] obtain c s1 where
    l: "loadCachedToken e s = Return c s1" "exchanges s1 = exchanges s" by blast
  with rec None have "c = Some r" by (simp add: cachedRecord_def)
  with None l us show ?thesis by (simp add: GetToken_def Let_def Before_usable)
next
  case (Some r0)
  with rec have "r0 = r" by (simp add: cachedRecord_def)
  with Some us show ?thesis by (simp add: GetToken_def Let_def Before_usable)
qed

lemma GetToken_refresh:
  assumes dk: "dirKnown s"
    and rec: "cachedRecord e tp s = None
              \<or> (\<exists>r. cachedRecord e tp s = Some r \<and> \<not> usable (Now_GetToken e) r)"
  shows "\<exists>s1. files s1 = files s \<and> exchanges s1 = exchanges s \<and> dirKnown s1
           \<and> GetToken e tp s = refreshToken e (tp\<lparr>token := cachedRecord e tp s\<rparr>) s1"
proof (cases "token tp")
  case None
  from loadCachedToken_dirKnown [OF dk, of e] obtain c s1 where
    l: "loadCachedToken e s = Return c s1" "files s1 = files s" "exchanges s1 = exchanges s"
       "dirKnown s1" by blast
  with None have c: "cachedRecord e tp s = c" by (simp add: cachedRecord_def)
  from rec c None l have
    "GetToken e tp s = refreshToken e (tp\<lparr>token := cachedRecord e tp s\<rparr>) s1"
    by (auto simp: GetToken_def Let_def Before_usable split: option.splits)
  with l show ?thesis by blast
next
  case (Some r0)
  then have c: "cachedRecord e tp s = Some r0" by (simp add: cachedRecord_def)
  with rec have "\<not> usable (Now_GetToken e) r0" by simp
  with Some c have
    "GetToken e tp s = refreshToken e (tp\<lparr>token := cachedRecord e tp s\<rparr>) s"
    by (simp add: GetToken_def Let_def Before_usable)
  with dk show ?thesis by blast
qed

lemma GetToken_exchanges:
  assumes dk: "dirKnown s"
    and rec: "cachedRecord e tp s = None
              \<or> (\<exists>r. cachedRecord e tp s = Some r \<and> \<not> usable (Now_GetToken e) r)"
  shows "\<exists>s'. GetToken e tp s =
            Return (case exchangeToken e tp s of
                      Inl err \<Rightarrow> (Inl err, tp\<lparr>token := cachedRecord e tp s\<rparr>)
                    | Inr tok \<Rightarrow> (Inr (AccessToken tok), tp\<lparr>token := Some tok\<rparr>)) s'
           \<and> exchanges s' = Suc (exchanges s)"
proof -
  let ?tp1 = "tp\<lparr>token := cachedRecord e tp s\<rparr>"
  from GetToken_refresh [OF dk rec] obtain s1 where
    s1: "files s1 = files s" "exchanges s1 = exchanges s" "dirKnown s1"
        "GetToken e tp s = refreshToken e ?tp1 s1" by blast
  have ex: "exchangeToken e ?tp1 s1 = exchangeToken e tp s"
    by (rule exchangeToken_files) (simp_all add: s1)
  from refreshToken_dirKnown [OF s1(3), of e ?tp1] obtain s' where
    "refreshToken e ?tp1 s1 =
       Return (case exchangeToken e ?tp1 s1 of Inl err \<Rightarrow> (Inl err, ?tp1)
               | Inr tok \<Rightarrow> (Inr (AccessToken tok), ?tp1\<lparr>token := Some tok\<rparr>)) s'"
    "exchanges s' = Suc (exchanges s1)" by blast
  with s1 ex show ?thesis by (auto split: sum.splits)
qed

lemma GetToken_refresh_eq:
  assumes dk: "dirKnown s"
    and rec: "cachedRecord e tp s = None
              \<or> (\<exists>r. cachedRecord e tp s = Some r \<and> \<not> usable (Now_GetToken e) r)"
  shows "GetToken e tp s =
           refreshToken e (tp\<lparr>token := cachedRecord e tp s\<rparr>)
             (if token tp = None then s\<lparr>configDir := configDirOf s\<rparr> else s)"
proof (cases "token tp")
  case None
  note l = loadCachedToken_eq [OF dk, of e]
  from None l have c: "cachedRecord e tp s
      = (case files s (cacheFile s) of None \<Rightarrow> None
         | Some data \<Rightarrow> Unmarshal_TokenCache e data)"
    by (simp add: cachedRecord_def)
  from rec show ?thesis
    unfolding c
    by (auto simp: GetToken_def None l Let_def Before_usable split: option.splits)
next
  case (Some r0)
  then have c: "cachedRecord e tp s = Some r0" by (simp add: cachedRecord_def)
  with rec have "\<not> usable (Now_GetToken e) r0" by simp
  with Some c show ?thesis by (simp add: GetToken_def Let_def Before_usable)
qed

lemma refreshToken_eq:
  assumes dk: "dirKnown s"
  shows "refreshToken e tp s =
           (case exchangeToken e tp s of
              Inl err \<Rightarrow> Return (Inl err, tp) (s\<lparr>exchanges := Suc (exchanges s)\<rparr>)
            | Inr tok \<Rightarrow>
                Return (Inr (AccessToken tok), tp\<lparr>token := Some tok\<rparr>)
                  (case MarshalIndent e tok of
                     None \<Rightarrow> s\<lparr>exchanges := Suc (exchanges s)\<rparr>
                   | Some data \<Rightarrow>
                       WriteFile e (cacheFile s) data
                         (s\<lparr>configDir := configDirOf s, exchanges := Suc (exchanges s)\<rparr>)))"
proof -
  let ?s1 = "s\<lparr>exchanges := Suc (exchanges s)\<rparr>"
  have ex: "exchangeToken e tp ?s1 = exchangeToken e tp s"
    by (rule exchangeToken_files) simp_all
  have dk1: "dirKnown ?s1" using dk by (simp add: dirKnown_def)
  have c1: "configDirOf ?s1 = configDirOf s" "cacheFile ?s1 = cacheFile s"
    by (simp_all add: configDirOf_def cacheFile_def)
  have sv: "saveCachedToken e tok ?s1 =
           Return () (case MarshalIndent e tok of None \<Rightarrow> ?s1
                      | Some data \<Rightarrow>
                          WriteFile e (cacheFile s) data
                            (s\<lparr>configDir := configDirOf s, exchanges := Suc (exchanges s)\<rparr>))"
    for tok
    by (simp add: saveCachedToken_eq [OF dk1] c1 WriteFile_def split: option.splits)
  show ?thesis
    by (simp add: refreshToken_def Let_def ex sv split: sum.splits)
qed


lemma GetToken_usable_eq:
  assumes dk: "dirKnown s" and rec: "cachedRecord e tp s = Some r"
    and us: "usable (Now_GetToken e) r"
  shows "GetToken e tp s =
           Return (Inr (AccessToken r), tp\<lparr>token := Some r\<rparr>)
             (if token tp = None then s\<lparr>configDir := configDirOf s\<rparr> else s)"
proof (cases "token tp")
  case None
  note l = loadCachedToken_eq [OF dk, of e]
  from None l rec have "(case files s (cacheFile s) of None \<Rightarrow> None
         | Some data \<Rightarrow> Unmarshal_TokenCache e data) = Some r"
    by (simp add: cachedRecord_def)
  with None l us show ?thesis by (simp add: GetToken_def Let_def Before_usable)
next
  case (Some r0)
  with rec have "r0 = r" by (simp add: cachedRecord_def)
  with Some us show ?thesis by (simp add: GetToken_def Let_def Before_usable)
qed

lemma cachedRecord_env:
  assumes "Unmarshal_TokenCache e' = Unmarshal_TokenCache e"
  shows "cachedRecord e' tp s = cachedRecord e tp s"
proof -
  have "loadCachedToken e' s = loadCachedToken e s"
    unfolding loadCachedToken_def assms ..
  then show ?thesis by (simp only: cachedRecord_def)
qed

lemma GetToken_exchange_eq:
  assumes dk: "dirKnown s"
    and rec: "cachedRecord e tp s = None
              \<or> (\<exists>r. cachedRecord e tp s = Some r \<and> \<not> usable (Now_GetToken e) r)"
  shows "\<exists>s'. GetToken e tp s =
            Return (case exchangeToken e tp s of
                      Inl err \<Rightarrow> (Inl err, tp\<lparr>token := cachedRecord e tp s\<rparr>)
                    | Inr tok \<Rightarrow> (Inr (AccessToken tok), tp\<lparr>token := Some tok\<rparr>)) s'
           \<and> exchanges s' = Suc (exchanges s)
           \<and> files s' =
               (case exchangeToken e tp s of
                  Inl err \<Rightarrow> files s
                | Inr tok \<Rightarrow>
                    (case MarshalIndent e tok of
                       None \<Rightarrow> files s
                     | Some data \<Rightarrow>
                         (case WriteFile_fails e of
                            None \<Rightarrow> (files s)(cacheFile s \<mapsto> data)
                          | Some fs \<Rightarrow> fs)))"
proof -
  let ?tp1 = "tp\<lparr>token := cachedRecord e tp s\<rparr>"
  let ?s0 = "if token tp = None then s\<lparr>configDir := configDirOf s\<rparr> else s"
  have g: "GetToken e tp s = refreshToken e ?tp1 ?s0"
    by (rule GetToken_refresh_eq [OF dk rec])
  have dk0: "dirKnown ?s0" using memo_dirKnown(1) [OF dk] dk by simp
  have c0: "cacheFile ?s0 = cacheFile s" "configDirOf ?s0 = configDirOf s"
    "files ?s0 = files s" "exchanges ?s0 = exchanges s"
    using memo_dirKnown [OF dk] by simp_all
  have ex: "exchangeToken e ?tp1 ?s0 = exchangeToken e tp s"
    by (rule exchangeToken_files) (simp_all add: c0)
  note r = refreshToken_eq [OF dk0, of e ?tp1, unfolded ex c0]
  show ?thesis
  proof (cases "exchangeToken e tp s")
    case (Inl err)
    with g r show ?thesis by (simp add: c0)
  next
    case (Inr tok)
    with g r show ?thesis
      by (simp add: c0 WriteFile_def split: option.splits)
  qed
qed


text \<open>
  Claim C1. Let the configuration directory be determinable, and let \<open>r\<close> be the cached
  record that \<^const>\<open>GetToken\<close> looks at (the one in memory, else the one that the cache file
  decodes to).

  \<^item> The call returns the access token of \<open>r\<close> without an exchange if and only if the current
    time plus 5 minutes is strictly before the expiry of \<open>r\<close>.
  \<^item> When \<open>r\<close> is usable in this sense, the call returns its access token, keeps \<open>r\<close> as the
    record in memory, writes no file and counts no exchange; and it returns the same in
    every environment with the same clock reading and the same decoder of the cache file,
    whatever the network and the key files are there: nothing of the exchange is used.
  \<^item> When there is no cached record, or \<open>r\<close> expires at or before the current time plus 5
    minutes, the call does the exchange: what it returns is what \<^const>\<open>exchangeToken\<close>
    returns (its error, or the access token of its record, which becomes the record in
    memory), exactly one exchange is counted, and the cache file gets the encoded record
    when the exchange and the write succeed.
  \<^item> Two calls: when the first call has no usable record and its exchange succeeds with a
    record that is still usable at the time of the second call, both calls return the
    access token of that record, the second call changes nothing, and one exchange is
    counted in total.
\<close>

theorem GetToken_cached_iff_usable:
  assumes dk: "dirKnown s"
  shows "(cachedRecord e tp s = Some r \<longrightarrow>
            ((\<exists>tp' s'. GetToken e tp s = Return (Inr (AccessToken r), tp') s'
                       \<and> exchanges s' = exchanges s)
             \<longleftrightarrow> usable (Now_GetToken e) r))
       \<and> (cachedRecord e tp s = Some r \<and> usable (Now_GetToken e) r \<longrightarrow>
            (\<exists>s'. GetToken e tp s = Return (Inr (AccessToken r), tp\<lparr>token := Some r\<rparr>) s'
                  \<and> exchanges s' = exchanges s
                  \<and> files s' = files s
                  \<and> (Now_GetToken e' = Now_GetToken e
                       \<and> Unmarshal_TokenCache e' = Unmarshal_TokenCache e \<longrightarrow>
                      GetToken e' tp s
                        = Return (Inr (AccessToken r), tp\<lparr>token := Some r\<rparr>) s')))
       \<and> (cachedRecord e tp s = None
            \<or> (cachedRecord e tp s = Some r \<and> \<not> usable (Now_GetToken e) r) \<longrightarrow>
            (\<exists>s'. GetToken e tp s =
                     Return (case exchangeToken e tp s of
                               Inl err \<Rightarrow> (Inl err, tp\<lparr>token := cachedRecord e tp s\<rparr>)
                             | Inr tok \<Rightarrow> (Inr (AccessToken tok), tp\<lparr>token := Some tok\<rparr>)) s'
                  \<and> exchanges s' = Suc (exchanges s)
                  \<and> files s' =
                      (case exchangeToken e tp s of
                         Inl err \<Rightarrow> files s
                       | Inr tok \<Rightarrow>
                           (case MarshalIndent e tok of
                              None \<Rightarrow> files s
                            | Some data \<Rightarrow>
                                (case WriteFile_fails e of
                                   None \<Rightarrow>
                                     (files s)(filepath_Join [configDirOf s, ''token_cache.json'']
                                               \<mapsto> data)
                                 | Some fs \<Rightarrow> fs)))))
       \<and> ((cachedRecord e tp s = None
             \<or> (cachedRecord e tp s = Some r \<and> \<not> usable (Now_GetToken e) r))
            \<and> exchangeToken e tp s = Inr new
            \<and> usable (Now_GetToken e2) new \<longrightarrow>
            (\<exists>s'. GetToken e tp s = Return (Inr (AccessToken new), tp\<lparr>token := Some new\<rparr>) s'
                  \<and> exchanges s' = Suc (exchanges s)
                  \<and> GetToken e2 (tp\<lparr>token := Some new\<rparr>) s'
                      = Return (Inr (AccessToken new), tp\<lparr>token := Some new\<rparr>) s'))"
proof -
  let ?s0 = "if token tp = None then s\<lparr>configDir := configDirOf s\<rparr> else s"
  have s0: "exchanges ?s0 = exchanges s" "files ?s0 = files s" by simp_all
  have norec: "cachedRecord e tp s = None
              \<or> (\<exists>r0. cachedRecord e tp s = Some r0 \<and> \<not> usable (Now_GetToken e) r0)"
    if "cachedRecord e tp s = None
            \<or> (cachedRecord e tp s = Some r \<and> \<not> usable (Now_GetToken e) r)"
    using that by auto
  have p1: "(\<exists>tp' s'. GetToken e tp s = Return (Inr (AccessToken r), tp') s'
                       \<and> exchanges s' = exchanges s)
             \<longleftrightarrow> usable (Now_GetToken e) r"
    if rec: "cachedRecord e tp s = Some r"
  proof
    assume "\<exists>tp' s'. GetToken e tp s = Return (Inr (AccessToken r), tp') s'
                  \<and> exchanges s' = exchanges s"
    then obtain tp' s' where g: "GetToken e tp s = Return (Inr (AccessToken r), tp') s'"
      "exchanges s' = exchanges s" by auto
    show "usable (Now_GetToken e) r"
    proof (rule ccontr)
      assume "\<not> usable (Now_GetToken e) r"
      with rec have "cachedRecord e tp s = None
              \<or> (\<exists>r0. cachedRecord e tp s = Some r0 \<and> \<not> usable (Now_GetToken e) r0)"
        by simp
      from GetToken_exchange_eq [OF dk this]
      have "\<exists>x s''. GetToken e tp s = Return x s'' \<and> exchanges s'' = Suc (exchanges s)"
        by (elim exE conjE, intro exI conjI)
      with g show False by auto
    qed
  next
    assume us: "usable (Now_GetToken e) r"
    from GetToken_usable_eq [OF dk rec us] s0(1)
    show "\<exists>tp' s'. GetToken e tp s = Return (Inr (AccessToken r), tp') s'
                  \<and> exchanges s' = exchanges s" by (intro exI conjI)
  qed
  have p2: "\<exists>s'. GetToken e tp s = Return (Inr (AccessToken r), tp\<lparr>token := Some r\<rparr>) s'
                  \<and> exchanges s' = exchanges s
                  \<and> files s' = files s
                  \<and> (Now_GetToken e' = Now_GetToken e
                       \<and> Unmarshal_TokenCache e' = Unmarshal_TokenCache e \<longrightarrow>
                      GetToken e' tp s
                        = Return (Inr (AccessToken r), tp\<lparr>token := Some r\<rparr>) s')"
    if h: "cachedRecord e tp s = Some r \<and> usable (Now_GetToken e) r"
  proof -
    from h have rec: "cachedRecord e tp s = Some r" and us: "usable (Now_GetToken e) r"
      by simp_all
    have other: "GetToken e' tp s = Return (Inr (AccessToken r), tp\<lparr>token := Some r\<rparr>) ?s0"
      if a: "Now_GetToken e' = Now_GetToken e
                       \<and> Unmarshal_TokenCache e' = Unmarshal_TokenCache e"
    proof -
      from a have "cachedRecord e' tp s = cachedRecord e tp s"
        by (intro cachedRecord_env) simp
      with rec have rec': "cachedRecord e' tp s = Some r" by simp
      from a us have us': "usable (Now_GetToken e') r" by simp
      show ?thesis by (rule GetToken_usable_eq [OF dk rec' us'])
    qed
    from GetToken_usable_eq [OF dk rec us] s0 other show ?thesis
      by (intro exI [of _ ?s0] conjI impI)
  qed
  have p3: "\<exists>s'. GetToken e tp s =
                     Return (case exchangeToken e tp s of
                               Inl err \<Rightarrow> (Inl err, tp\<lparr>token := cachedRecord e tp s\<rparr>)
                             | Inr tok \<Rightarrow> (Inr (AccessToken tok), tp\<lparr>token := Some tok\<rparr>)) s'
                  \<and> exchanges s' = Suc (exchanges s)
                  \<and> files s' =
                      (case exchangeToken e tp s of
                         Inl err \<Rightarrow> files s
                       | Inr tok \<Rightarrow>
                           (case MarshalIndent e tok of
                              None \<Rightarrow> files s
                            | Some data \<Rightarrow>
                                (case WriteFile_fails e of
                                   None \<Rightarrow>
                                     (files s)(filepath_Join [configDirOf s, ''token_cache.json'']
                                               \<mapsto> data)
                                 | Some fs \<Rightarrow> fs)))"
    if h: "cachedRecord e tp s = None
            \<or> (cachedRecord e tp s = Some r \<and> \<not> usable (Now_GetToken e) r)"
    using GetToken_exchange_eq [OF dk norec [OF h]] by (simp only: cacheFile_def)
  have p4: "\<exists>s'. GetToken e tp s = Return (Inr (AccessToken new), tp\<lparr>token := Some new\<rparr>) s'
                  \<and> exchanges s' = Suc (exchanges s)
                  \<and> GetToken e2 (tp\<lparr>token := Some new\<rparr>) s'
                      = Return (Inr (AccessToken new), tp\<lparr>token := Some new\<rparr>) s'"
    if h: "(cachedRecord e tp s = None
             \<or> (cachedRecord e tp s = Some r \<and> \<not> usable (Now_GetToken e) r))
            \<and> exchangeToken e tp s = Inr new
            \<and> usable (Now_GetToken e2) new"
  proof -
    from h have h1: "cachedRecord e tp s = None
             \<or> (cachedRecord e tp s = Some r \<and> \<not> usable (Now_GetToken e) r)"
      and ex: "exchangeToken e tp s = Inr new" and us: "usable (Now_GetToken e2) new"
      by simp_all
    from GetToken_exchange_eq [OF dk norec [OF h1]] ex obtain s' where
      g: "GetToken e tp s = Return (Inr (AccessToken new), tp\<lparr>token := Some new\<rparr>) s'"
      and n: "exchanges s' = Suc (exchanges s)" by auto
    from us have g2: "GetToken e2 (tp\<lparr>token := Some new\<rparr>) s'
                      = Return (Inr (AccessToken new), tp\<lparr>token := Some new\<rparr>) s'"
      by (simp add: GetToken_def Let_def Before_usable)
    from g n g2 show ?thesis by (intro exI conjI)
  qed
  show ?thesis
    apply (intro conjI)
       apply (rule impI, erule p1)
      apply (rule impI, erule p2)
     apply (rule impI, erule p3)
    apply (rule impI, erule p4)
    done
qed

lemmas run_defs =
  GetToken_def refreshToken_def loadCachedToken_def saveCachedToken_def WriteFile_def
  cachePath_def ConfigDir_def UserHomeDir_def Clean_def Split.simps ReadFile_def
  exchangeToken_def generateClientSecret_def loadPrivateKey_def formData_def
  FormatInt_def digits.simps Let_def Add_def Before_def Second_def Minute_def
  env0_def cfg0_def sys0_def tokenBody_def resp200_def resp201_def resp400_def
  tpNone_def recFresh_def recDue_def recNew_def

lemma cold_start:
  "GetToken (env0 resp200) tpNone sys0 =
     Return (Inr ''abc'', tpNone\<lparr>token := Some recNew\<rparr>)
       (sys0\<lparr>configDir := ''/home/u/.asa-cli'', exchanges := 1,
             files := (files sys0)(''/home/u/.asa-cli/token_cache.json'' \<mapsto> ''cache'')\<rparr>)"
  by (simp add: run_defs)

theorem GetToken_cached_iff_usable_witness:
  "dirKnown sys0
   \<and> cachedRecord (env0 resp200) (tpNone\<lparr>token := Some recFresh\<rparr>) sys0 = Some recFresh
   \<and> usable (Now_GetToken (env0 resp200)) recFresh
   \<and> (\<exists>s'. GetToken (env0 resp200) (tpNone\<lparr>token := Some recFresh\<rparr>) sys0
              = Return (Inr ''cached'', tpNone\<lparr>token := Some recFresh\<rparr>) s'
            \<and> exchanges s' = 0 \<and> files s' = files sys0
            \<and> GetToken (env0 resp400) (tpNone\<lparr>token := Some recFresh\<rparr>) sys0
              = Return (Inr ''cached'', tpNone\<lparr>token := Some recFresh\<rparr>) s')
   \<and> cachedRecord (env0 resp200) (tpNone\<lparr>token := Some recDue\<rparr>) sys0 = Some recDue
   \<and> \<not> usable (Now_GetToken (env0 resp200)) recDue
   \<and> exchangeToken (env0 resp200) (tpNone\<lparr>token := Some recDue\<rparr>) sys0 = Inr recNew
   \<and> (\<exists>s'. GetToken (env0 resp200) (tpNone\<lparr>token := Some recDue\<rparr>) sys0
              = Return (Inr ''abc'', tpNone\<lparr>token := Some recNew\<rparr>) s'
            \<and> exchanges s' = 1
            \<and> files s' = (files sys0)(''/home/u/.asa-cli/token_cache.json'' \<mapsto> ''cache''))
   \<and> exchangeToken (env0 resp400) (tpNone\<lparr>token := Some recDue\<rparr>) sys0
       = Inl ''token exchange failed (HTTP 400): invalid_client''
   \<and> (\<exists>s'. GetToken (env0 resp400) (tpNone\<lparr>token := Some recDue\<rparr>) sys0
              = Return (Inl ''token exchange failed (HTTP 400): invalid_client'',
                        tpNone\<lparr>token := Some recDue\<rparr>) s'
            \<and> exchanges s' = 1 \<and> files s' = files sys0)
   \<and> cachedRecord (env0 resp200) tpNone sys0 = None
   \<and> exchangeToken (env0 resp200) tpNone sys0 = Inr recNew
   \<and> usable (Now_GetToken (env0 resp400)) recNew
   \<and> (\<exists>s'. GetToken (env0 resp200) tpNone sys0
              = Return (Inr ''abc'', tpNone\<lparr>token := Some recNew\<rparr>) s'
            \<and> exchanges s' = 1
            \<and> GetToken (env0 resp400) (tpNone\<lparr>token := Some recNew\<rparr>) s'
              = Return (Inr ''abc'', tpNone\<lparr>token := Some recNew\<rparr>) s')
   \<and> dirKnown sysDisk
   \<and> token tpNone = None
   \<and> cachedRecord envDisk tpNone sysDisk = Some recFresh
   \<and> usable (Now_GetToken envDisk) recFresh
   \<and> (\<exists>s'. GetToken envDisk tpNone sysDisk
              = Return (Inr ''cached'', tpNone\<lparr>token := Some recFresh\<rparr>) s'
            \<and> exchanges s' = 0 \<and> files s' = files sysDisk)"
proof -
  let ?e = "env0 resp200"
  let ?e4 = "env0 resp400"
  let ?tpF = "tpNone\<lparr>token := Some recFresh\<rparr>"
  let ?tpD = "tpNone\<lparr>token := Some recDue\<rparr>"
  let ?tpN = "tpNone\<lparr>token := Some recNew\<rparr>"
  have dk: "dirKnown sys0" by (simp add: dirKnown_def sys0_def)
  have x0: "exchanges sys0 = 0" by (simp add: sys0_def)
  have aF: "AccessToken recFresh = ''cached''" by (simp add: recFresh_def)
  have aN: "AccessToken recNew = ''abc''" by (simp add: recNew_def)
  have cd: "filepath_Join [configDirOf sys0, ''token_cache.json'']
              = ''/home/u/.asa-cli/token_cache.json''"
    by (simp add: configDirOf_def sys0_def Clean_def Split.simps)
  have c1: "cachedRecord ?e ?tpF sys0 = Some recFresh" by (simp add: cachedRecord_def)
  have u1: "usable (Now_GetToken ?e) recFresh" by (simp add: usable_def env0_def recFresh_def)
  have n1: "Now_GetToken ?e4 = Now_GetToken ?e \<and> Unmarshal_TokenCache ?e4 = Unmarshal_TokenCache ?e"
    by (simp add: env0_def)
  have c2: "cachedRecord ?e ?tpD sys0 = Some recDue" by (simp add: cachedRecord_def)
  have c2': "cachedRecord ?e4 ?tpD sys0 = Some recDue" by (simp add: cachedRecord_def)
  have u2: "\<not> usable (Now_GetToken ?e) recDue" by (simp add: usable_def env0_def recDue_def)
  have u2': "\<not> usable (Now_GetToken ?e4) recDue" by (simp add: usable_def env0_def recDue_def)
  have e2: "exchangeToken ?e ?tpD sys0 = Inr recNew" by (simp add: run_defs)
  have e2': "exchangeToken ?e4 ?tpD sys0 = Inl ''token exchange failed (HTTP 400): invalid_client''"
    by (simp add: run_defs)
  have m: "MarshalIndent ?e recNew = Some ''cache''" "WriteFile_fails ?e = None"
    by (simp_all add: env0_def)
  have c3: "cachedRecord ?e tpNone sys0 = None" by (simp add: cachedRecord_def run_defs)
  have e3: "exchangeToken ?e tpNone sys0 = Inr recNew" by (simp add: run_defs)
  have u3: "usable (Now_GetToken ?e4) recNew" by (simp add: usable_def env0_def recNew_def)
  have dk4: "dirKnown sysDisk" by (simp add: dirKnown_def sysDisk_def sys0_def)
  have x4: "exchanges sysDisk = 0" by (simp add: sysDisk_def sys0_def)
  have n4: "token tpNone = None" by (simp add: tpNone_def)
  have c4: "cachedRecord envDisk tpNone sysDisk = Some recFresh"
    by (simp add: cachedRecord_def envDisk_def sysDisk_def run_defs)
  have u4: "usable (Now_GetToken envDisk) recFresh"
    by (simp add: usable_def envDisk_def env0_def recFresh_def)
  note T = GetToken_cached_iff_usable [OF dk]
  from T [of ?e ?tpF recFresh ?e4, THEN conjunct2, THEN conjunct1, THEN mp, OF conjI [OF c1 u1]]
  have r1: "\<exists>s'. GetToken ?e ?tpF sys0 = Return (Inr ''cached'', ?tpF) s'
            \<and> exchanges s' = 0 \<and> files s' = files sys0
            \<and> GetToken ?e4 ?tpF sys0 = Return (Inr ''cached'', ?tpF) s'"
    using n1 by (auto simp: aF x0)
  from T [of ?e ?tpD recDue, THEN conjunct2, THEN conjunct2, THEN conjunct1, THEN mp,
      OF disjI2 [OF conjI [OF c2 u2]]]
  have r2: "\<exists>s'. GetToken ?e ?tpD sys0 = Return (Inr ''abc'', ?tpN) s'
            \<and> exchanges s' = 1
            \<and> files s' = (files sys0)(''/home/u/.asa-cli/token_cache.json'' \<mapsto> ''cache'')"
    unfolding e2 cd by (auto simp: aN x0 m)
  from T [of ?e4 ?tpD recDue, THEN conjunct2, THEN conjunct2, THEN conjunct1, THEN mp,
      OF disjI2 [OF conjI [OF c2' u2']]]
  have r2': "\<exists>s'. GetToken ?e4 ?tpD sys0
              = Return (Inl ''token exchange failed (HTTP 400): invalid_client'', ?tpD) s'
            \<and> exchanges s' = 1 \<and> files s' = files sys0"
    unfolding e2' c2' by (auto simp: x0)
  from T [of ?e tpNone recNew _ recNew ?e4, THEN conjunct2, THEN conjunct2, THEN conjunct2,
      THEN mp, OF conjI [OF disjI1 [OF c3] conjI [OF e3 u3]]]
  have r3: "\<exists>s'. GetToken ?e tpNone sys0 = Return (Inr ''abc'', ?tpN) s'
            \<and> exchanges s' = 1
            \<and> GetToken ?e4 ?tpN s' = Return (Inr ''abc'', ?tpN) s'"
    by (auto simp: aN x0)
  from GetToken_cached_iff_usable [OF dk4, of envDisk tpNone recFresh envDisk,
      THEN conjunct2, THEN conjunct1, THEN mp, OF conjI [OF c4 u4]]
  have r4: "\<exists>s'. GetToken envDisk tpNone sysDisk = Return (Inr ''cached'', ?tpF) s'
            \<and> exchanges s' = 0 \<and> files s' = files sysDisk"
    by (auto simp: aF x4)
  from dk c1 u1 r1 c2 u2 e2 r2 e2' r2' c3 e3 u3 r3 dk4 n4 c4 u4 r4
  show ?thesis by (intro conjI)
qed

text \<open>
  Claim C10. Let the configuration directory be determinable, let there be no usable
  cached record, and let the token exchange succeed with the record \<open>tok\<close>. If persisting
  \<open>tok\<close> fails (the record cannot be encoded, or the cache file cannot be written),
  \<^const>\<open>GetToken\<close> still returns the access token of \<open>tok\<close> with no error and leaves \<open>tok\<close>
  as the record in memory; the files are then what the failed write left, not the new
  cache.
\<close>

theorem GetToken_ignores_save_failure:
  assumes dk: "dirKnown s"
    and rec: "cachedRecord e tp s = None
              \<or> (\<exists>r. cachedRecord e tp s = Some r \<and> \<not> usable (Now_GetToken e) r)"
    and ex: "exchangeToken e tp s = Inr tok"
    and fail: "MarshalIndent e tok = None \<or> WriteFile_fails e = Some fs"
  shows "\<exists>s'. GetToken e tp s = Return (Inr (AccessToken tok), tp\<lparr>token := Some tok\<rparr>) s'
           \<and> (MarshalIndent e tok = None \<longrightarrow> files s' = files s)
           \<and> (MarshalIndent e tok \<noteq> None \<longrightarrow> files s' = fs)"
proof -
  let ?tp1 = "tp\<lparr>token := cachedRecord e tp s\<rparr>"
  from GetToken_refresh [OF dk rec] obtain s1 where
    s1: "files s1 = files s" "dirKnown s1" "GetToken e tp s = refreshToken e ?tp1 s1" by blast
  let ?s2 = "s1\<lparr>exchanges := Suc (exchanges s1)\<rparr>"
  have ex1: "exchangeToken e ?tp1 ?s2 = Inr tok"
    using exchangeToken_files [of ?tp1 tp ?s2 s e] s1 ex by simp
  have dk2: "dirKnown ?s2" using s1 by (simp add: dirKnown_def)
  from saveCachedToken_files [OF dk2, of e tok fs] obtain s' where
    sv0: "saveCachedToken e tok ?s2 = Return () s' \<and> exchanges s' = exchanges ?s2
           \<and> (MarshalIndent e tok = None \<longrightarrow> files s' = files ?s2)
           \<and> (MarshalIndent e tok \<noteq> None \<and> WriteFile_fails e = Some fs \<longrightarrow> files s' = fs)" ..
  from sv0 have sv1: "saveCachedToken e tok ?s2 = Return () s'" by (rule conjunct1)
  from sv0 have sv2: "MarshalIndent e tok = None \<longrightarrow> files s' = files ?s2"
    by (elim conjE)
  from sv0 have sv3:
    "MarshalIndent e tok \<noteq> None \<and> WriteFile_fails e = Some fs \<longrightarrow> files s' = fs"
    by (elim conjE)
  from ex1 sv1 have "refreshToken e ?tp1 s1
      = Return (Inr (AccessToken tok), tp\<lparr>token := Some tok\<rparr>) s'"
    by (simp add: refreshToken_def Let_def)
  with s1 have g: "GetToken e tp s = Return (Inr (AccessToken tok), tp\<lparr>token := Some tok\<rparr>) s'"
    by simp
  from sv2 s1 have f1: "MarshalIndent e tok = None \<longrightarrow> files s' = files s" by simp
  from sv3 fail have f2: "MarshalIndent e tok \<noteq> None \<longrightarrow> files s' = fs" by auto
  from g f1 f2 show ?thesis by (intro exI conjI)
qed


theorem GetToken_ignores_save_failure_witness:
  "dirKnown sys0
   \<and> cachedRecord ((env0 resp200)\<lparr>WriteFile_fails := Some (files sys0)\<rparr>) tpNone sys0 = None
   \<and> exchangeToken ((env0 resp200)\<lparr>WriteFile_fails := Some (files sys0)\<rparr>) tpNone sys0
       = Inr recNew
   \<and> WriteFile_fails ((env0 resp200)\<lparr>WriteFile_fails := Some (files sys0)\<rparr>)
       = Some (files sys0)
   \<and> (\<exists>s'. GetToken ((env0 resp200)\<lparr>WriteFile_fails := Some (files sys0)\<rparr>) tpNone sys0
              = Return (Inr ''abc'', tpNone\<lparr>token := Some recNew\<rparr>) s'
            \<and> files s' = files sys0)"
proof -
  let ?e = "(env0 resp200)\<lparr>WriteFile_fails := Some (files sys0)\<rparr>"
  have dk: "dirKnown sys0" by (simp add: dirKnown_def sys0_def)
  have c: "cachedRecord ?e tpNone sys0 = None" by (simp add: cachedRecord_def run_defs)
  have x: "exchangeToken ?e tpNone sys0 = Inr recNew" by (simp add: run_defs)
  have w: "WriteFile_fails ?e = Some (files sys0)" by simp
  have m: "MarshalIndent ?e recNew \<noteq> None" by (simp add: env0_def)
  have a: "AccessToken recNew = ''abc''" by (simp add: recNew_def)
  from GetToken_ignores_save_failure [OF dk disjI1 [OF c] x disjI2 [OF w]]
  obtain s' where
    g0: "GetToken ?e tpNone sys0
          = Return (Inr (AccessToken recNew), tpNone\<lparr>token := Some recNew\<rparr>) s'
         \<and> (MarshalIndent ?e recNew = None \<longrightarrow> files s' = files sys0)
         \<and> (MarshalIndent ?e recNew \<noteq> None \<longrightarrow> files s' = files sys0)" ..
  from g0 have g: "GetToken ?e tpNone sys0
          = Return (Inr (AccessToken recNew), tpNone\<lparr>token := Some recNew\<rparr>) s'"
    by (rule conjunct1)
  from g0 have f: "MarshalIndent ?e recNew \<noteq> None \<longrightarrow> files s' = files sys0"
    by (elim conjE)
  from g a have g': "GetToken ?e tpNone sys0
          = Return (Inr ''abc'', tpNone\<lparr>token := Some recNew\<rparr>) s'" by (simp only:)
  from f m have "files s' = files sys0" by (rule mp)
  with g' have "\<exists>s'. GetToken ?e tpNone sys0 = Return (Inr ''abc'', tpNone\<lparr>token := Some recNew\<rparr>) s'
            \<and> files s' = files sys0" by (intro exI conjI)
  with dk c x w show ?thesis by (intro conjI)
qed

section \<open>Properties of the assertion signer\<close>

lemma jwtLifetime_ns: "sint jwtLifetime = 180 * 24 * 3600 * 1000000000"
  by (simp add: jwtLifetime_def Hour_def Minute_def Second_def)

text \<open>
  Claim C7. For every configuration and time \<open>now\<close>, the assertion that the signer builds
  has the key identifier of the configuration in its header, the team identifier as
  issuer, the client identifier as subject, the fixed identity endpoint as its only
  audience, \<open>now\<close> as issued-at and \<open>now\<close> plus exactly 180 days as expiry (180 days of 24
  hours, in nanoseconds); and when the private key loads, \<^const>\<open>generateClientSecret\<close>
  returns what signing this assertion, built at its reading of the clock, returns.
\<close>

theorem clientAssertion_claims:
  "TokenHeader (clientAssertion c now) ''kid'' = Some (KeyID c)
   \<and> TokenHeader (clientAssertion c now) ''alg'' = Some ''ES256''
   \<and> Issuer (Claims (clientAssertion c now)) = TeamID c
   \<and> Subject (Claims (clientAssertion c now)) = ClientID c
   \<and> Audience (Claims (clientAssertion c now)) = [''https://appleid.apple.com'']
   \<and> IssuedAt (Claims (clientAssertion c now)) = Some (NewNumericDate now)
   \<and> Expires (Claims (clientAssertion c now))
       = Some (NewNumericDate (now + 180 * 24 * 3600 * 1000000000))
   \<and> (loadPrivateKey e s (PrivateKeyPath (cfg tp)) = Inr key \<longrightarrow>
        generateClientSecret e tp s
          = SignedString e (clientAssertion (cfg tp) (Now_generateClientSecret e)) key)"
  by (simp add: clientAssertion_def NewWithClaims_def tokenAud_def Add_def jwtLifetime_ns
      generateClientSecret_def Let_def)

theorem clientAssertion_claims_witness:
  "loadPrivateKey (env0 resp200) sys0 (PrivateKeyPath (cfg tpNone)) = Inr ''private-key''
   \<and> generateClientSecret (env0 resp200) tpNone sys0
       = SignedString (env0 resp200)
           (clientAssertion (cfg tpNone) (Now_generateClientSecret (env0 resp200)))
           ''private-key''
   \<and> TokenHeader (clientAssertion cfg0 1700000000000000000) ''kid'' = Some ''key-1''
   \<and> Expires (Claims (clientAssertion cfg0 1700000000000000000))
       = Some (NewNumericDate 1715552000000000000)"
proof -
  have k: "loadPrivateKey (env0 resp200) sys0 (PrivateKeyPath (cfg tpNone)) = Inr ''private-key''"
    by (simp add: loadPrivateKey_def ReadFile_def env0_def sys0_def tpNone_def cfg0_def)
  note t = clientAssertion_claims [of cfg0 1700000000000000000 "env0 resp200" sys0 tpNone
      "''private-key''"]
  from t k have g: "generateClientSecret (env0 resp200) tpNone sys0
       = SignedString (env0 resp200)
           (clientAssertion (cfg tpNone) (Now_generateClientSecret (env0 resp200)))
           ''private-key''" by simp
  from t have h: "TokenHeader (clientAssertion cfg0 1700000000000000000) ''kid'' = Some ''key-1''"
    by (simp add: cfg0_def)
  from t have x: "Expires (Claims (clientAssertion cfg0 1700000000000000000))
       = Some (NewNumericDate 1715552000000000000)" by simp
  from k g h x show ?thesis by (intro conjI)
qed

section \<open>Properties of the token exchange\<close>














section \<open>Properties of the authenticating transport\<close>

lemma canonical_Authorization: "CanonicalMIMEHeaderKey ''Authorization'' = ''Authorization''"
  by code_simp

lemma canonical_Context: "CanonicalMIMEHeaderKey ''X-AP-Context'' = ''X-Ap-Context''"
  by code_simp

lemma Header_authorize:
  "Header (authorize t tok req) =
     (if Transport.OrgID t \<noteq> []
      then (Header req)(''Authorization'' \<mapsto> [''Bearer '' @ tok],
                        ''X-Ap-Context'' \<mapsto> [''orgId='' @ Transport.OrgID t])
      else (Header req)(''Authorization'' \<mapsto> [''Bearer '' @ tok]))"
  by (simp add: authorize_def Header_Set_def canonical_Authorization canonical_Context Let_def)

lemma authorize_Method_URL:
  "Method (authorize t tok req) = Method req \<and> URL (authorize t tok req) = URL req"
  by (simp add: authorize_def Let_def)

lemma traceHeader_placeholders:
  "traceHeader ''Authorization'' v = ''> Authorization: Bearer ***'' @ nl
   \<and> traceHeader ''X-Ap-Context'' v = ''> X-Ap-Context: orgId=***'' @ nl"
  by (simp add: traceHeader_def)

lemma trace_line_authorize:
  assumes "Transport.OrgID t1 = [] \<longleftrightarrow> Transport.OrgID t2 = []"
  shows "(case Header (authorize t1 tok1 req) k of None \<Rightarrow> [] | Some v \<Rightarrow> traceHeader k v)
       = (case Header (authorize t2 tok2 req) k of None \<Rightarrow> [] | Some v \<Rightarrow> traceHeader k v)"
proof (cases "k = ''Authorization''")
  case True
  then show ?thesis by (simp add: Header_authorize traceHeader_placeholders)
next
  case na: False
  show ?thesis
  proof (cases "k = ''X-Ap-Context''")
    case True
    with assms show ?thesis by (auto simp: Header_authorize traceHeader_placeholders)
  next
    case False
    with na show ?thesis by (simp add: Header_authorize)
  qed
qed

lemma traceRequest_authorize:
  assumes "Transport.OrgID t1 = [] \<longleftrightarrow> Transport.OrgID t2 = []"
  shows "traceRequest ks (authorize t1 tok1 req) = traceRequest ks (authorize t2 tok2 req)"
proof -
  have "(\<lambda>k. case Header (authorize t1 tok1 req) k of None \<Rightarrow> [] | Some v \<Rightarrow> traceHeader k v)
      = (\<lambda>k. case Header (authorize t2 tok2 req) k of None \<Rightarrow> [] | Some v \<Rightarrow> traceHeader k v)"
    by (rule ext) (rule trace_line_authorize [OF assms])
  then show ?thesis by (simp add: traceRequest_def authorize_Method_URL)
qed

lemma printed_RoundTrip:
  assumes "GetToken e tp s = Return (Inr tok, tp') s'"
  shows "printed (RoundTrip e t tp s ks req) =
           (if Verbose t
            then traceRequest ks (authorize t tok req)
                 @ (case statusLine (baseOf e t (authorize t tok req)) of
                      None \<Rightarrow> []
                    | Some (status, proto) \<Rightarrow> ''< '' @ status @ '' '' @ proto @ nl)
            else [])"
  using assms by (simp add: RoundTrip_def Let_def split: sum.splits)

text \<open>
  Claim C6. Take one request, one order of the header keys, and two calls of the
  transport in which the provider returns the tokens \<open>tok1\<close> and \<open>tok2\<close> and the transports
  have the organization identifiers \<open>Transport.OrgID t1\<close> and \<open>Transport.OrgID t2\<close> (both
  configured, or both not), the same verbosity, and an underlying transport that answers
  with the same status line. Then the two calls print the same text: the trace before
  sending is the same, the line for the Authorization header is the fixed text
  \<open>> Authorization: Bearer ***\<close> and the line for the organization-context header is the
  fixed text \<open>> X-Ap-Context: orgId=***\<close>, whatever the values of these headers, which are
  the ones that carry the token and the organization identifier.
\<close>

theorem RoundTrip_trace_redacted:
  assumes g1: "GetToken e1 tp1 s1 = Return (Inr tok1, tp1') s1'"
    and g2: "GetToken e2 tp2 s2 = Return (Inr tok2, tp2') s2'"
    and org: "Transport.OrgID t1 = [] \<longleftrightarrow> Transport.OrgID t2 = []"
    and verbose: "Verbose t1 = Verbose t2"
    and answer: "statusLine (baseOf e1 t1 (authorize t1 tok1 req))
                 = statusLine (baseOf e2 t2 (authorize t2 tok2 req))"
  shows "printed (RoundTrip e1 t1 tp1 s1 ks req) = printed (RoundTrip e2 t2 tp2 s2 ks req)
       \<and> traceRequest ks (authorize t1 tok1 req) = traceRequest ks (authorize t2 tok2 req)
       \<and> Header (authorize t1 tok1 req) ''Authorization'' = Some [''Bearer '' @ tok1]
       \<and> traceHeader ''Authorization'' [''Bearer '' @ tok1] = ''> Authorization: Bearer ***'' @ nl
       \<and> (Transport.OrgID t1 \<noteq> [] \<longrightarrow>
            Header (authorize t1 tok1 req) ''X-Ap-Context'' = Some [''orgId='' @ Transport.OrgID t1]
            \<and> traceHeader ''X-Ap-Context'' [''orgId='' @ Transport.OrgID t1]
                = ''> X-Ap-Context: orgId=***'' @ nl)"
proof (intro conjI impI)
  show tr: "traceRequest ks (authorize t1 tok1 req) = traceRequest ks (authorize t2 tok2 req)"
    by (rule traceRequest_authorize [OF org])
  show "printed (RoundTrip e1 t1 tp1 s1 ks req) = printed (RoundTrip e2 t2 tp2 s2 ks req)"
    by (simp only: printed_RoundTrip [OF g1] printed_RoundTrip [OF g2] tr verbose answer)
  show "Header (authorize t1 tok1 req) ''Authorization'' = Some [''Bearer '' @ tok1]"
    by (simp add: Header_authorize)
  show "traceHeader ''Authorization'' [''Bearer '' @ tok1] = ''> Authorization: Bearer ***'' @ nl"
    by (simp add: traceHeader_placeholders)
next
  assume "Transport.OrgID t1 \<noteq> []"
  then show "Header (authorize t1 tok1 req) ''X-Ap-Context''
               = Some [''orgId='' @ Transport.OrgID t1]"
    by (simp add: Header_authorize)
next
  show "traceHeader ''X-Ap-Context'' [''orgId='' @ Transport.OrgID t1]
          = ''> X-Ap-Context: orgId=***'' @ nl"
    by (simp add: traceHeader_placeholders)
qed


theorem RoundTrip_trace_redacted_witness:
  "GetToken (env0 resp200) (tpNone\<lparr>token := Some recFresh\<rparr>) sys0
     = Return (Inr ''cached'', tpNone\<lparr>token := Some recFresh\<rparr>) sys0
   \<and> GetToken (env0 resp200) (tpNone\<lparr>token := Some recNew\<rparr>) sys0
     = Return (Inr ''abc'', tpNone\<lparr>token := Some recNew\<rparr>) sys0
   \<and> ''cached'' \<noteq> ''abc'' \<and> Transport.OrgID transportA \<noteq> Transport.OrgID transportB
   \<and> (Transport.OrgID transportA = [] \<longleftrightarrow> Transport.OrgID transportB = [])
   \<and> Verbose transportA = Verbose transportB
   \<and> statusLine (baseOf (env0 resp200) transportA (authorize transportA ''cached'' reqCampaigns))
       = statusLine (baseOf (env0 resp200) transportB (authorize transportB ''abc'' reqCampaigns))
   \<and> printed (RoundTrip (env0 resp200) transportA (tpNone\<lparr>token := Some recFresh\<rparr>) sys0
                keyOrder reqCampaigns)
       = printed (RoundTrip (env0 resp200) transportB (tpNone\<lparr>token := Some recNew\<rparr>) sys0
                keyOrder reqCampaigns)
   \<and> printed (RoundTrip (env0 resp200) transportB (tpNone\<lparr>token := Some recNew\<rparr>) sys0
                keyOrder reqCampaigns)
       = ''> GET https://api.example/api/v5/campaigns'' @ nl
         @ ''> Accept: [application/json]'' @ nl
         @ ''> Authorization: Bearer ***'' @ nl
         @ ''> X-Ap-Context: orgId=***'' @ nl
         @ ''< 200 OK HTTP/2.0'' @ nl"
proof -
  let ?e = "env0 resp200"
  let ?tp1 = "tpNone\<lparr>token := Some recFresh\<rparr>"
  let ?tp2 = "tpNone\<lparr>token := Some recNew\<rparr>"
  have g1: "GetToken ?e ?tp1 sys0 = Return (Inr ''cached'', ?tp1) sys0"
    by (simp add: GetToken_def Let_def Before_def Add_def Minute_def Second_def env0_def
        recFresh_def tpNone_def)
  have g2: "GetToken ?e ?tp2 sys0 = Return (Inr ''abc'', ?tp2) sys0"
    by (simp add: GetToken_def Let_def Before_def Add_def Minute_def Second_def env0_def
        recNew_def tpNone_def)
  have d: "''cached'' \<noteq> ''abc''" "Transport.OrgID transportA \<noteq> Transport.OrgID transportB"
    by (simp_all add: transportA_def transportB_def)
  have o: "Transport.OrgID transportA = [] \<longleftrightarrow> Transport.OrgID transportB = []"
    by (simp add: transportA_def transportB_def)
  have v: "Verbose transportA = Verbose transportB"
    by (simp add: transportA_def transportB_def)
  have a: "statusLine (baseOf ?e transportA (authorize transportA ''cached'' reqCampaigns))
       = statusLine (baseOf ?e transportB (authorize transportB ''abc'' reqCampaigns))"
    by (simp add: baseOf_def transportA_def transportB_def env0_def)
  from RoundTrip_trace_redacted [OF g1 g2 o v a, of keyOrder]
  have eq: "printed (RoundTrip ?e transportA ?tp1 sys0 keyOrder reqCampaigns)
       = printed (RoundTrip ?e transportB ?tp2 sys0 keyOrder reqCampaigns)"
    by (rule conjunct1)
  have val: "printed (RoundTrip ?e transportB ?tp2 sys0 keyOrder reqCampaigns)
       = ''> GET https://api.example/api/v5/campaigns'' @ nl
         @ ''> Accept: [application/json]'' @ nl
         @ ''> Authorization: Bearer ***'' @ nl
         @ ''> X-Ap-Context: orgId=***'' @ nl
         @ ''< 200 OK HTTP/2.0'' @ nl"
    unfolding printed_RoundTrip [OF g2]
    by (simp add: traceRequest_def Header_authorize
        authorize_Method_URL traceHeader_def fmt_strings_def baseOf_def transportB_def
        reqCampaigns_def keyOrder_def env0_def respAcls_def)
  from g1 g2 d o v a eq val show ?thesis by (intro conjI)
qed

section \<open>Properties of organization resolution\<close>

lemma newAPIClient_orgID_resolve:
  assumes "globalOrgID = []" "Config.OrgID c = []"
  shows "newAPIClient_orgID BaseURL verbose globalOrgID e c s ks
           = resolveOrgID BaseURL verbose e (NewTokenProvider c) s ks"
  using assms
  by (simp add: newAPIClient_orgID_def Let_def split: outcome.splits prod.splits sum.splits)

text \<open>
  What \<^const>\<open>resolveOrgID\<close> returns once the access-control-list request has been answered
  with a readable body: it depends on the decoded list of organizations only.
\<close>

lemma resolveOrgID_answered:
  assumes "NewRequest e ''GET'' (BaseURL @ ''/acls'') = Inr req0"
    and "Client_Do e \<lparr>Base = None, OrgID = [], Verbose = verbose\<rparr> tp s ks
           (req0\<lparr>Header := Header_Set (Header req0) ''Accept'' ''application/json''\<rparr>)
         = Return (Inr resp, tp', out) s'"
    and "Body resp = Inr body"
    and "Unmarshal_acls e body = Inr data"
  shows "resolveOrgID BaseURL verbose e tp s ks =
           (if length data = 0 then
              Return (Inl ''no organizations found for this account'', tp', out) s'
            else if length data = 1 then
              Return (Inr (FormatInt (sint (UserACL.OrgID (data ! 0)))), tp',
                      out @ (if verbose
                             then ''Auto-selected org: '' @ OrgName (data ! 0) @ '' (ID: ''
                                  @ FormatInt (sint (UserACL.OrgID (data ! 0))) @ '')'' @ nl
                             else [])) s'
            else
              Return (Inl (''multiple organizations found. Use --org-id flag or set org_id in config:''
                           @ nl @ strings_Join (map aclLine data) nl), tp', out) s')"
  using assms by (simp add: resolveOrgID_def Let_def)

lemma resolveOrgID_success:
  assumes "resolveOrgID BaseURL verbose e tp s ks = Return (Inr orgID, tp', out) s'"
  shows "\<exists>req0 resp out0 body acl.
           NewRequest e ''GET'' (BaseURL @ ''/acls'') = Inr req0
           \<and> Client_Do e \<lparr>Base = None, OrgID = [], Verbose = verbose\<rparr> tp s ks
                (req0\<lparr>Header := Header_Set (Header req0) ''Accept'' ''application/json''\<rparr>)
              = Return (Inr resp, tp', out0) s'
           \<and> Body resp = Inr body
           \<and> Unmarshal_acls e body = Inr [acl]
           \<and> orgID = FormatInt (sint (UserACL.OrgID acl))"
proof (cases "NewRequest e ''GET'' (BaseURL @ ''/acls'')")
  case (Inl err)
  with assms show ?thesis by (simp add: resolveOrgID_def Let_def)
next
  case req0: (Inr req0)
  let ?req = "req0\<lparr>Header := Header_Set (Header req0) ''Accept'' ''application/json''\<rparr>"
  let ?t = "\<lparr>Base = None, OrgID = [], Verbose = verbose\<rparr>"
  show ?thesis
  proof (cases "Client_Do e ?t tp s ks ?req")
    case (Exit code msg)
    with assms req0 show ?thesis by (simp add: resolveOrgID_def Let_def)
  next
    case (Return x s1)
    obtain r tp1 out1 where x: "x = (r, tp1, out1)" by (cases x)
    show ?thesis
    proof (cases r)
      case (Inl err)
      with assms req0 Return x show ?thesis by (simp add: resolveOrgID_def Let_def)
    next
      case resp: (Inr resp)
      with Return x have d: "Client_Do e ?t tp s ks ?req = Return (Inr resp, tp1, out1) s1"
        by simp
      show ?thesis
      proof (cases "Body resp")
        case (Inl err)
        with assms req0 d show ?thesis by (simp add: resolveOrgID_def Let_def)
      next
        case body: (Inr body)
        show ?thesis
        proof (cases "Unmarshal_acls e body")
          case (Inl err)
          with assms req0 d body show ?thesis by (simp add: resolveOrgID_def Let_def)
        next
          case data: (Inr data)
          from resolveOrgID_answered [OF req0 d body data] assms
          have l: "length data = 1" and o: "orgID = FormatInt (sint (UserACL.OrgID (data ! 0)))"
            and st: "tp1 = tp'" "s1 = s'"
            by (auto split: if_splits)
          from l obtain acl where a: "data = [acl]" by (cases data) auto
          from req0 d body data a o st show ?thesis by auto
        qed
      qed
    qed
  qed
qed


text \<open>
  Claim C5. When neither the flag nor the configuration gives an organization identifier,
  \<open>newAPIClient\<close> takes what \<^const>\<open>resolveOrgID\<close> returns. That call succeeds only when the
  access-control-list request was answered with a body that decodes to exactly one
  organization, and then it returns the decimal identifier of that organization. When
  the request is answered: no organization gives the error \<open>no organizations found for
  this account\<close>, two or more organizations give an error, and exactly one organization
  gives its identifier; the first of several is never taken.
\<close>

theorem resolveOrgID_exactly_one:
  assumes noflag: "globalOrgID = []" and nocfg: "Config.OrgID c = []"
  shows "newAPIClient_orgID BaseURL verbose globalOrgID e c s ks
           = resolveOrgID BaseURL verbose e (NewTokenProvider c) s ks
       \<and> (newAPIClient_orgID BaseURL verbose globalOrgID e c s ks
             = Return (Inr orgID, tp', out) s' \<longrightarrow>
           (\<exists>req0 resp out0 body acl.
              NewRequest e ''GET'' (BaseURL @ ''/acls'') = Inr req0
              \<and> Client_Do e \<lparr>Base = None, OrgID = [], Verbose = verbose\<rparr>
                   (NewTokenProvider c) s ks
                   (req0\<lparr>Header := Header_Set (Header req0) ''Accept'' ''application/json''\<rparr>)
                 = Return (Inr resp, tp', out0) s'
              \<and> Body resp = Inr body
              \<and> Unmarshal_acls e body = Inr [acl]
              \<and> orgID = FormatInt (sint (UserACL.OrgID acl))))
       \<and> (NewRequest e ''GET'' (BaseURL @ ''/acls'') = Inr req0
            \<and> Client_Do e \<lparr>Base = None, OrgID = [], Verbose = verbose\<rparr>
                 (NewTokenProvider c) s ks
                 (req0\<lparr>Header := Header_Set (Header req0) ''Accept'' ''application/json''\<rparr>)
               = Return (Inr resp, tp1, out1) s1
            \<and> Body resp = Inr body
            \<and> Unmarshal_acls e body = Inr data \<longrightarrow>
            (data = [] \<longrightarrow>
               newAPIClient_orgID BaseURL verbose globalOrgID e c s ks
                 = Return (Inl ''no organizations found for this account'', tp1, out1) s1)
            \<and> (2 \<le> length data \<longrightarrow>
               (\<exists>err. newAPIClient_orgID BaseURL verbose globalOrgID e c s ks
                        = Return (Inl err, tp1, out1) s1))
            \<and> (data = [acl1] \<longrightarrow>
               (\<exists>out'. newAPIClient_orgID BaseURL verbose globalOrgID e c s ks
                        = Return (Inr (FormatInt (sint (UserACL.OrgID acl1))), tp1, out') s1)))"
proof -
  have eq: "newAPIClient_orgID BaseURL verbose globalOrgID e c s ks
           = resolveOrgID BaseURL verbose e (NewTokenProvider c) s ks"
    by (rule newAPIClient_orgID_resolve [OF noflag nocfg])
  have only: "\<exists>req0 resp out0 body acl.
              NewRequest e ''GET'' (BaseURL @ ''/acls'') = Inr req0
              \<and> Client_Do e \<lparr>Base = None, OrgID = [], Verbose = verbose\<rparr>
                   (NewTokenProvider c) s ks
                   (req0\<lparr>Header := Header_Set (Header req0) ''Accept'' ''application/json''\<rparr>)
                 = Return (Inr resp, tp', out0) s'
              \<and> Body resp = Inr body
              \<and> Unmarshal_acls e body = Inr [acl]
              \<and> orgID = FormatInt (sint (UserACL.OrgID acl))"
    if "newAPIClient_orgID BaseURL verbose globalOrgID e c s ks = Return (Inr orgID, tp', out) s'"
    using that resolveOrgID_success [of BaseURL verbose e "NewTokenProvider c" s ks orgID tp' out s']
    by (simp only: eq)
  have answered: "(data = [] \<longrightarrow>
               newAPIClient_orgID BaseURL verbose globalOrgID e c s ks
                 = Return (Inl ''no organizations found for this account'', tp1, out1) s1)
            \<and> (2 \<le> length data \<longrightarrow>
               (\<exists>err. newAPIClient_orgID BaseURL verbose globalOrgID e c s ks
                        = Return (Inl err, tp1, out1) s1))
            \<and> (data = [acl1] \<longrightarrow>
               (\<exists>out'. newAPIClient_orgID BaseURL verbose globalOrgID e c s ks
                        = Return (Inr (FormatInt (sint (UserACL.OrgID acl1))), tp1, out') s1))"
    if h: "NewRequest e ''GET'' (BaseURL @ ''/acls'') = Inr req0
            \<and> Client_Do e \<lparr>Base = None, OrgID = [], Verbose = verbose\<rparr>
                 (NewTokenProvider c) s ks
                 (req0\<lparr>Header := Header_Set (Header req0) ''Accept'' ''application/json''\<rparr>)
               = Return (Inr resp, tp1, out1) s1
            \<and> Body resp = Inr body
            \<and> Unmarshal_acls e body = Inr data"
  proof -
    from h have h1: "NewRequest e ''GET'' (BaseURL @ ''/acls'') = Inr req0"
      and h2: "Client_Do e \<lparr>Base = None, OrgID = [], Verbose = verbose\<rparr>
                 (NewTokenProvider c) s ks
                 (req0\<lparr>Header := Header_Set (Header req0) ''Accept'' ''application/json''\<rparr>)
               = Return (Inr resp, tp1, out1) s1"
      and h3: "Body resp = Inr body" and h4: "Unmarshal_acls e body = Inr data"
      by simp_all
    note r = resolveOrgID_answered [OF h1 h2 h3 h4]
    show ?thesis by (simp add: eq r)
  qed
  show ?thesis
    apply (intro conjI)
      apply (rule eq)
     apply (rule impI, erule only)
    apply (rule impI, erule answered)
    done
qed


lemma Client_Do_envAcls:
  "Client_Do (envAcls r) \<lparr>Base = None, OrgID = [], Verbose = False\<rparr> (NewTokenProvider cfg0)
       sys0 ks req
     = Return (Inr r, tpNone\<lparr>token := Some recNew\<rparr>, [])
         (sys0\<lparr>configDir := ''/home/u/.asa-cli'', exchanges := 1,
               files := (files sys0)(''/home/u/.asa-cli/token_cache.json'' \<mapsto> ''cache'')\<rparr>)"
  by (simp add: Client_Do_def RoundTrip_def baseOf_def envAcls_def NewTokenProvider_def run_defs)

theorem resolveOrgID_exactly_one_witness:
  "Config.OrgID cfg0 = []
   \<and> Unmarshal_acls (envAcls respAcls) ''{data:[{orgId:40669820,orgName:Acme}]}''
       = Inr [\<lparr>OrgName = ''Acme'', OrgID = 40669820, Currency = ''USD'',
                RoleNames = [''API Account Manager'']\<rparr>]
   \<and> (\<exists>out'. newAPIClient_orgID apiURL False [] (envAcls respAcls) cfg0 sys0 keyOrder
         = Return (Inr ''40669820'', tpNone\<lparr>token := Some recNew\<rparr>, out')
             (sys0\<lparr>configDir := ''/home/u/.asa-cli'', exchanges := 1,
                   files := (files sys0)(''/home/u/.asa-cli/token_cache.json'' \<mapsto> ''cache'')\<rparr>))
   \<and> Unmarshal_acls (envAcls respNoOrg) ''{data:[]}'' = Inr []
   \<and> newAPIClient_orgID apiURL False [] (envAcls respNoOrg) cfg0 sys0 keyOrder
       = Return (Inl ''no organizations found for this account'',
                 tpNone\<lparr>token := Some recNew\<rparr>, [])
           (sys0\<lparr>configDir := ''/home/u/.asa-cli'', exchanges := 1,
                 files := (files sys0)(''/home/u/.asa-cli/token_cache.json'' \<mapsto> ''cache'')\<rparr>)
   \<and> Unmarshal_acls (envAcls respTwoOrgs) ''{data:[{orgId:1,orgName:A},{orgId:2,orgName:B}]}''
       = Inr [\<lparr>OrgName = ''A'', OrgID = 1, Currency = ''USD'', RoleNames = []\<rparr>,
              \<lparr>OrgName = ''B'', OrgID = 2, Currency = ''EUR'', RoleNames = []\<rparr>]
   \<and> (\<exists>err. newAPIClient_orgID apiURL False [] (envAcls respTwoOrgs) cfg0 sys0 keyOrder
         = Return (Inl err, tpNone\<lparr>token := Some recNew\<rparr>, [])
             (sys0\<lparr>configDir := ''/home/u/.asa-cli'', exchanges := 1,
                   files := (files sys0)(''/home/u/.asa-cli/token_cache.json'' \<mapsto> ''cache'')\<rparr>))"
proof -
  let ?req0 = "\<lparr>Method = ''GET'', URL = apiURL @ ''/acls'', Header = Map.empty\<rparr>"
  let ?acme = "\<lparr>OrgName = ''Acme'', OrgID = 40669820, Currency = ''USD'',
                RoleNames = [''API Account Manager'']\<rparr>"
  let ?two = "[\<lparr>OrgName = ''A'', OrgID = 1, Currency = ''USD'', RoleNames = []\<rparr>,
              \<lparr>OrgName = ''B'', OrgID = 2, Currency = ''EUR'', RoleNames = []\<rparr>]"
  have c: "Config.OrgID cfg0 = []" by (simp add: cfg0_def)
  have n: "NewRequest (envAcls r) ''GET'' (apiURL @ ''/acls'') = Inr ?req0" for r
    by (simp add: NewRequest_def envAcls_def env0_def)
  have b1: "Body respAcls = Inr ''{data:[{orgId:40669820,orgName:Acme}]}''"
    by (simp add: respAcls_def)
  have b0: "Body respNoOrg = Inr ''{data:[]}''" by (simp add: respNoOrg_def)
  have b2: "Body respTwoOrgs = Inr ''{data:[{orgId:1,orgName:A},{orgId:2,orgName:B}]}''"
    by (simp add: respTwoOrgs_def)
  have u1: "Unmarshal_acls (envAcls respAcls) ''{data:[{orgId:40669820,orgName:Acme}]}''
       = Inr [?acme]" by (simp add: envAcls_def env0_def)
  have u0: "Unmarshal_acls (envAcls respNoOrg) ''{data:[]}'' = Inr []"
    by (simp add: envAcls_def env0_def)
  have u2: "Unmarshal_acls (envAcls respTwoOrgs)
              ''{data:[{orgId:1,orgName:A},{orgId:2,orgName:B}]}'' = Inr ?two"
    by (simp add: envAcls_def env0_def)
  have f: "FormatInt (sint (UserACL.OrgID ?acme)) = ''40669820''"
    by (simp add: FormatInt_def digits.simps)
  have h1: "NewRequest (envAcls respAcls) ''GET'' (apiURL @ ''/acls'') = Inr ?req0
            \<and> Client_Do (envAcls respAcls) \<lparr>Base = None, OrgID = [], Verbose = False\<rparr>
                 (NewTokenProvider cfg0) sys0 keyOrder
                 (?req0\<lparr>Header := Header_Set (Header ?req0) ''Accept'' ''application/json''\<rparr>)
               = Return (Inr respAcls, tpNone\<lparr>token := Some recNew\<rparr>, [])
                   (sys0\<lparr>configDir := ''/home/u/.asa-cli'', exchanges := 1,
                     files := (files sys0)(''/home/u/.asa-cli/token_cache.json'' \<mapsto> ''cache'')\<rparr>)
            \<and> Body respAcls = Inr ''{data:[{orgId:40669820,orgName:Acme}]}''
            \<and> Unmarshal_acls (envAcls respAcls) ''{data:[{orgId:40669820,orgName:Acme}]}''
                = Inr [?acme]"
    by (intro conjI) (rule n Client_Do_envAcls b1 u1)+
  have h0: "NewRequest (envAcls respNoOrg) ''GET'' (apiURL @ ''/acls'') = Inr ?req0
            \<and> Client_Do (envAcls respNoOrg) \<lparr>Base = None, OrgID = [], Verbose = False\<rparr>
                 (NewTokenProvider cfg0) sys0 keyOrder
                 (?req0\<lparr>Header := Header_Set (Header ?req0) ''Accept'' ''application/json''\<rparr>)
               = Return (Inr respNoOrg, tpNone\<lparr>token := Some recNew\<rparr>, [])
                   (sys0\<lparr>configDir := ''/home/u/.asa-cli'', exchanges := 1,
                     files := (files sys0)(''/home/u/.asa-cli/token_cache.json'' \<mapsto> ''cache'')\<rparr>)
            \<and> Body respNoOrg = Inr ''{data:[]}''
            \<and> Unmarshal_acls (envAcls respNoOrg) ''{data:[]}'' = Inr []"
    by (intro conjI) (rule n Client_Do_envAcls b0 u0)+
  have h2: "NewRequest (envAcls respTwoOrgs) ''GET'' (apiURL @ ''/acls'') = Inr ?req0
            \<and> Client_Do (envAcls respTwoOrgs) \<lparr>Base = None, OrgID = [], Verbose = False\<rparr>
                 (NewTokenProvider cfg0) sys0 keyOrder
                 (?req0\<lparr>Header := Header_Set (Header ?req0) ''Accept'' ''application/json''\<rparr>)
               = Return (Inr respTwoOrgs, tpNone\<lparr>token := Some recNew\<rparr>, [])
                   (sys0\<lparr>configDir := ''/home/u/.asa-cli'', exchanges := 1,
                     files := (files sys0)(''/home/u/.asa-cli/token_cache.json'' \<mapsto> ''cache'')\<rparr>)
            \<and> Body respTwoOrgs = Inr ''{data:[{orgId:1,orgName:A},{orgId:2,orgName:B}]}''
            \<and> Unmarshal_acls (envAcls respTwoOrgs)
                 ''{data:[{orgId:1,orgName:A},{orgId:2,orgName:B}]}'' = Inr ?two"
    by (intro conjI) (rule n Client_Do_envAcls b2 u2)+
  note t1 = resolveOrgID_exactly_one [OF refl c, THEN conjunct2, THEN conjunct2, THEN mp, OF h1,
      THEN conjunct2, THEN conjunct2, THEN mp, OF refl]
  note t0 = resolveOrgID_exactly_one [OF refl c, THEN conjunct2, THEN conjunct2, THEN mp, OF h0,
      THEN conjunct1, THEN mp, OF refl]
  note t2 = resolveOrgID_exactly_one [OF refl c, THEN conjunct2, THEN conjunct2, THEN mp, OF h2,
      THEN conjunct2, THEN conjunct1, THEN mp]
  have r1: "\<exists>out'. newAPIClient_orgID apiURL False [] (envAcls respAcls) cfg0 sys0 keyOrder
         = Return (Inr ''40669820'', tpNone\<lparr>token := Some recNew\<rparr>, out')
             (sys0\<lparr>configDir := ''/home/u/.asa-cli'', exchanges := 1,
                   files := (files sys0)(''/home/u/.asa-cli/token_cache.json'' \<mapsto> ''cache'')\<rparr>)"
    using t1 by (simp only: f)
  have r2: "\<exists>err. newAPIClient_orgID apiURL False [] (envAcls respTwoOrgs) cfg0 sys0 keyOrder
         = Return (Inl err, tpNone\<lparr>token := Some recNew\<rparr>, [])
             (sys0\<lparr>configDir := ''/home/u/.asa-cli'', exchanges := 1,
                   files := (files sys0)(''/home/u/.asa-cli/token_cache.json'' \<mapsto> ''cache'')\<rparr>)"
    by (rule t2) simp
  from c u1 r1 u0 t0 u2 r2 show ?thesis by (intro conjI)
qed

end
